theory Spec2Isabelle
  imports Main "HOL-Library.AList"
begin

section \<open>Python values, exceptions and dictionaries\<close>

text \<open>
  A Python float is kept as a mantissa and a binary exponent: \<open>Finite m e\<close> stands for
  \<open>m * 2 ^ e\<close>. The values a JSON parser produces are \<open>None\<close>, booleans, unbounded
  integers, floats, strings, lists and dictionaries with string keys. A dictionary is an
  association list; the dictionary it denotes is \<open>map_of\<close> of it.
\<close>

datatype pyfloat = Finite int int | PosInf | NegInf | NaN

datatype json =
    JNull
  | JBool bool
  | JInt int
  | JFloat pyfloat
  | JStr string
  | JList "json list"
  | JDict "(string \<times> json) list"

text \<open>
  The exceptions of the model are the instances of Python's \<open>Exception\<close> (what the library
  calls of this program raise). \<open>ContractLogicError msg\<close> is an instance of web3's
  \<open>ContractLogicError\<close> or of a subclass of it; \<open>PyException cls msg\<close> is an instance of any
  other class, with \<open>str(e) = msg\<close>.
\<close>

datatype exn = ContractLogicError string | PyException string string

fun exn_str :: "exn \<Rightarrow> string" where
  "exn_str (ContractLogicError msg) = msg"
| "exn_str (PyException cls msg) = msg"

definition try_bind :: "exn + 'a \<Rightarrow> ('a \<Rightarrow> exn + 'b) \<Rightarrow> exn + 'b" where
  "try_bind r f = (case r of Inl e \<Rightarrow> Inl e | Inr x \<Rightarrow> f x)"

definition sq :: string where
  "sq = [CHR 0x27]"

fun py_type_name :: "json \<Rightarrow> string" where
  "py_type_name JNull = ''NoneType''"
| "py_type_name (JBool b) = ''bool''"
| "py_type_name (JInt i) = ''int''"
| "py_type_name (JFloat f) = ''float''"
| "py_type_name (JStr s) = ''str''"
| "py_type_name (JList xs) = ''list''"
| "py_type_name (JDict kvs) = ''dict''"

text \<open>Truth value of an object in a condition (\<open>if x\<close>, \<open>x and y\<close>).\<close>

fun py_truthy :: "json \<Rightarrow> bool" where
  "py_truthy JNull = False"
| "py_truthy (JBool b) = b"
| "py_truthy (JInt i) = (i \<noteq> 0)"
| "py_truthy (JFloat f) = (case f of Finite m e \<Rightarrow> m \<noteq> 0 | _ \<Rightarrow> True)"
| "py_truthy (JStr s) = (s \<noteq> [])"
| "py_truthy (JList xs) = (xs \<noteq> [])"
| "py_truthy (JDict kvs) = (kvs \<noteq> [])"

text \<open>\<open>d.get(k, dflt)\<close>: only a dictionary has the method.\<close>

definition dict_get :: "json \<Rightarrow> string \<Rightarrow> json \<Rightarrow> exn + json" where
  "dict_get d k dflt =
     (case d of
        JDict kvs \<Rightarrow> Inr (case map_of kvs k of None \<Rightarrow> dflt | Some v \<Rightarrow> v)
      | _ \<Rightarrow> Inl (PyException ''AttributeError''
                 (sq @ py_type_name d @ sq @ '' object has no attribute '' @ sq @ ''get'' @ sq)))"

text \<open>
  \<open>x[0]\<close>: the first element of a list, the first character of a string; a dictionary
  of a JSON document has string keys only, so the key \<open>0\<close> is missing; the other values
  are not subscriptable.
\<close>

fun py_getitem0 :: "json \<Rightarrow> exn + json" where
  "py_getitem0 (JList xs) =
     (case xs of [] \<Rightarrow> Inl (PyException ''IndexError'' ''list index out of range'')
      | x # _ \<Rightarrow> Inr x)"
| "py_getitem0 (JStr s) =
     (case s of [] \<Rightarrow> Inl (PyException ''IndexError'' ''string index out of range'')
      | c # _ \<Rightarrow> Inr (JStr [c]))"
| "py_getitem0 (JDict kvs) = Inl (PyException ''KeyError'' ''0'')"
| "py_getitem0 v =
     Inl (PyException ''TypeError'' (sq @ py_type_name v @ sq @ '' object is not subscriptable''))"

subsection \<open>Integers as text\<close>

definition digit_char :: "nat \<Rightarrow> char" where
  "digit_char d = ''0123456789abcdef'' ! d"

fun hex_digits :: "nat \<Rightarrow> string" where
  "hex_digits n =
     (if n < 16 then [digit_char n] else hex_digits (n div 16) @ [digit_char (n mod 16)])"

fun dec_digits :: "nat \<Rightarrow> string" where
  "dec_digits n =
     (if n < 10 then [digit_char n] else dec_digits (n div 10) @ [digit_char (n mod 10)])"

declare hex_digits.simps [simp del]
declare dec_digits.simps [simp del]

text \<open>\<open>hex(i)\<close> and \<open>str(i)\<close> of an integer.\<close>

definition py_hex :: "int \<Rightarrow> string" where
  "py_hex i = (if i < 0 then ''-0x'' @ hex_digits (nat (- i)) else ''0x'' @ hex_digits (nat i))"

definition py_str :: "int \<Rightarrow> string" where
  "py_str i = (if i < 0 then ''-'' @ dec_digits (nat (- i)) else dec_digits (nat i))"

section \<open>The mock chain endpoint (mock_rpc.py)\<close>

definition MOCK_CHAIN_ID :: int where
  "MOCK_CHAIN_ID = 1337"

definition MOCK_TX_HASH :: string where
  "MOCK_TX_HASH = ''0x'' @ replicate 64 CHR ''a''"

definition MOCK_BLOCK_HASH :: string where
  "MOCK_BLOCK_HASH = ''0x'' @ replicate 64 CHR ''b''"

definition zeros :: "nat \<Rightarrow> string" where
  "zeros n = replicate n CHR ''0''"

definition mock_block :: json where
  "mock_block = JDict
     [(''number'', JStr ''0x1''),
      (''hash'', JStr MOCK_BLOCK_HASH),
      (''parentHash'', JStr (''0x'' @ zeros 64)),
      (''nonce'', JStr ''0x0000000000000000''),
      (''sha3Uncles'', JStr (''0x'' @ zeros 64)),
      (''logsBloom'', JStr (''0x'' @ zeros 512)),
      (''transactionsRoot'', JStr (''0x'' @ zeros 64)),
      (''stateRoot'', JStr (''0x'' @ zeros 64)),
      (''receiptsRoot'', JStr (''0x'' @ zeros 64)),
      (''miner'', JStr (''0x'' @ zeros 40)),
      (''difficulty'', JStr ''0x0''),
      (''totalDifficulty'', JStr ''0x0''),
      (''extraData'', JStr ''0x''),
      (''size'', JStr ''0x3e8''),
      (''gasLimit'', JStr ''0x1c9c380''),
      (''gasUsed'', JStr ''0x0''),
      (''timestamp'', JStr ''0x64fc9d77''),
      (''transactions'', JList []),
      (''uncles'', JList []),
      (''baseFeePerGas'', JStr ''0x3b9aca00'')]"

definition mock_receipt :: json where
  "mock_receipt = JDict
     [(''transactionHash'', JStr MOCK_TX_HASH),
      (''transactionIndex'', JStr ''0x1''),
      (''blockHash'', JStr MOCK_BLOCK_HASH),
      (''blockNumber'', JStr ''0x1''),
      (''from'', JStr (''0x'' @ replicate 40 CHR ''1'')),
      (''to'', JStr (''0x'' @ replicate 40 CHR ''2'')),
      (''cumulativeGasUsed'', JStr ''0x5208''),
      (''gasUsed'', JStr ''0x5208''),
      (''contractAddress'', JNull),
      (''logs'', JList []),
      (''logsBloom'', JStr ''0x0''),
      (''status'', JStr ''0x1'')]"

text \<open>
  The dispatch of \<open>handle_rpc\<close> on the method name: the \<open>if\<close>/\<open>elif\<close> chain that assigns
  \<open>result\<close>. The only branch that can raise is the receipt query, at \<open>params[0]\<close>.
\<close>

definition rpc_result :: "json \<Rightarrow> json \<Rightarrow> exn + json" where
  "rpc_result method params =
     (if method = JStr ''eth_chainId'' then Inr (JStr (py_hex MOCK_CHAIN_ID))
      else if method = JStr ''net_version'' then Inr (JStr (py_str MOCK_CHAIN_ID))
      else if method = JStr ''eth_getTransactionCount'' then Inr (JStr ''0x0'')
      else if method = JStr ''eth_gasPrice'' then Inr (JStr ''0x3b9aca00'')
      else if method = JStr ''eth_estimateGas'' then Inr (JStr ''0x5208'')
      else if method = JStr ''eth_maxPriorityFeePerGas'' then Inr (JStr ''0x3b9aca00'')
      else if method = JStr ''eth_getBlockByNumber'' then Inr mock_block
      else if method = JStr ''eth_sendRawTransaction'' then Inr (JStr MOCK_TX_HASH)
      else if method = JStr ''eth_getTransactionReceipt'' then
        (if py_truthy params then
           try_bind (py_getitem0 params)
             (\<lambda>p0. if p0 = JStr MOCK_TX_HASH then Inr mock_receipt else Inr JNull)
         else Inr JNull)
      else Inr (JStr ''0x0''))"

definition error_envelope :: "exn \<Rightarrow> json" where
  "error_envelope e =
     JDict [(''jsonrpc'', JStr ''2.0''), (''id'', JNull),
            (''error'', JDict [(''code'', JInt (- 32000)), (''message'', JStr (exn_str e))])]"

text \<open>
  \<open>handle_rpc\<close>. The argument is the outcome of \<open>await request.json()\<close>: the parsed body,
  or the exception of a body that is not JSON. The body of the \<open>try\<close> block ends with the
  \<open>return\<close> of the dictionary \<open>{"jsonrpc": "2.0", "id": req_id, "result": result}\<close>; the
  \<open>except\<close> clause turns every exception into a \<open>JSONResponse\<close> with status code 500 and
  the error envelope. The two log lines are left out.

  What the handler returns is modelled, not what is then sent: a returned dictionary is
  serialised by the framework after the handler has returned, outside its \<open>try\<close> (for the
  status 200 reply), and that step fails when the echoed \<open>id\<close> holds a float that is not
  finite.
\<close>

datatype handler_return = Returned json | JSONResponse nat json

definition handle_rpc_try :: "exn + json \<Rightarrow> exn + json" where
  "handle_rpc_try request_json =
     try_bind request_json (\<lambda>data.
     try_bind (dict_get data ''method'' JNull) (\<lambda>method.
     try_bind (dict_get data ''params'' (JList [])) (\<lambda>params.
     try_bind (dict_get data ''id'' JNull) (\<lambda>req_id.
     try_bind (rpc_result method params) (\<lambda>result.
     Inr (JDict [(''jsonrpc'', JStr ''2.0''), (''id'', req_id), (''result'', result)]))))))"

definition handle_rpc :: "exn + json \<Rightarrow> handler_return" where
  "handle_rpc request_json =
     (case handle_rpc_try request_json of
        Inr body \<Rightarrow> Returned body
      | Inl e \<Rightarrow> JSONResponse 500 (error_envelope e))"

section \<open>Effects: the trace of a call\<close>

text \<open>
  A call of the registrar talks to the chain node, to the file system and to the log. The
  model records these effects, in order, as a list of events, so that a property such as
  "no network activity" or "the keystore is never read" is a property of the trace.
  A byte string (\<open>bytes\<close>, \<open>HexBytes\<close>) is a list of 8-bit characters; a transaction and a
  receipt are dictionaries.
\<close>

type_synonym bytes = string

type_synonym pydict = "(string \<times> json) list"

datatype log_level = INFO | WARNING | ERROR

datatype event =
    Log log_level string
  | NetIsConnected
  | NetGetTransactionCount string
  | NetBuildTransaction string string pydict
  | NetEstimateGas pydict
  | NetSendRawTransaction bytes
  | NetWaitForTransactionReceipt bytes
  | ToChecksumAddress string
  | ContractFunction string string
  | SignTransaction pydict bytes
  | FileExists string
  | FileOpenRead string
  | FileOpenWrite string

fun is_network :: "event \<Rightarrow> bool" where
  "is_network NetIsConnected = True"
| "is_network (NetGetTransactionCount a) = True"
| "is_network (NetBuildTransaction r u p) = True"
| "is_network (NetEstimateGas t) = True"
| "is_network (NetSendRawTransaction b) = True"
| "is_network (NetWaitForTransactionReceipt h) = True"
| "is_network e = False"

fun is_file_access :: "event \<Rightarrow> bool" where
  "is_file_access (FileExists p) = True"
| "is_file_access (FileOpenRead p) = True"
| "is_file_access (FileOpenWrite p) = True"
| "is_file_access e = False"

text \<open>
  A computation that emits events and then returns a value or raises: the events so far
  are kept when an exception cuts the computation short.
\<close>

type_synonym 'a io = "event list \<times> (exn + 'a)"

definition io_return :: "'a \<Rightarrow> 'a io" where
  "io_return x = ([], Inr x)"

definition io_bind :: "'a io \<Rightarrow> ('a \<Rightarrow> 'b io) \<Rightarrow> 'b io" where
  "io_bind m f =
     (case m of
        (evs, Inl e) \<Rightarrow> (evs, Inl e)
      | (evs, Inr x) \<Rightarrow> (case f x of (evs', r) \<Rightarrow> (evs @ evs', r)))"

text \<open>An external call: the event, and the outcome the outside world gives it.\<close>

definition io_call :: "event \<Rightarrow> exn + 'a \<Rightarrow> 'a io" where
  "io_call ev outcome = ([ev], outcome)"

definition io_lift :: "exn + 'a \<Rightarrow> 'a io" where
  "io_lift outcome = ([], outcome)"

definition io_log :: "log_level \<Rightarrow> string \<Rightarrow> unit io" where
  "io_log lvl msg = ([Log lvl msg], Inr ())"

text \<open>\<open>try: m except Exception as e: handler e\<close>.\<close>

definition io_try :: "'a io \<Rightarrow> (exn \<Rightarrow> 'a io) \<Rightarrow> 'a io" where
  "io_try m handler =
     (case m of
        (evs, Inl e) \<Rightarrow> (case handler e of (evs', r) \<Rightarrow> (evs @ evs', r))
      | (evs, Inr x) \<Rightarrow> (evs, Inr x))"

section \<open>The gas buffer: \<open>int(gas_estimate * 1.2)\<close>\<close>

text \<open>
  The source multiplies an integer by the float literal \<open>1.2\<close> and truncates. Python
  converts the integer to the nearest double (ties to even; \<open>OverflowError\<close> when it is too
  large), multiplies in double precision (the exact product rounded to the nearest double,
  infinity on overflow) and \<open>int\<close> truncates toward zero (\<open>OverflowError\<close> on infinity).
  The double nearest to 1.2 is \<open>5404319552844595 * 2^-52\<close>.
\<close>

fun bit_length :: "nat \<Rightarrow> nat" where
  "bit_length n = (if n = 0 then 0 else Suc (bit_length (n div 2)))"

declare bit_length.simps [simp del]

text \<open>\<open>p / 2^s\<close> rounded to the nearest integer, a tie to the even one.\<close>

definition round_half_even :: "nat \<Rightarrow> nat \<Rightarrow> nat" where
  "round_half_even p s =
     (let q = p div 2 ^ s; r = p mod 2 ^ s
      in if 2 ^ s < 2 * r \<or> (2 * r = 2 ^ s \<and> odd q) then q + 1 else q)"

text \<open>
  The double nearest to \<open>p * 2^e\<close> for \<open>p > 0\<close>, as mantissa and exponent: 53 significant
  bits are kept. (The values met here are at least 1, so no subnormal arises.)
\<close>

definition nearest_double :: "nat \<Rightarrow> int \<Rightarrow> nat \<times> int" where
  "nearest_double p e =
     (let b = bit_length p
      in if b \<le> 53 then (p, e) else (round_half_even p (b - 53), e + int (b - 53)))"

text \<open>Whether \<open>m * 2^e\<close> is beyond the largest double.\<close>

definition double_overflow :: "nat \<Rightarrow> int \<Rightarrow> bool" where
  "double_overflow m e = (0 \<le> e \<and> 2 ^ 1024 \<le> m * 2 ^ nat e)"

definition FLOAT_1_2 :: nat where
  "FLOAT_1_2 = 5404319552844595"

definition py_float_of_int :: "int \<Rightarrow> exn + pyfloat" where
  "py_float_of_int n =
     (if n = 0 then Inr (Finite 0 0)
      else (case nearest_double (nat \<bar>n\<bar>) 0 of
              (m, e) \<Rightarrow>
                if double_overflow m e
                then Inl (PyException ''OverflowError'' ''int too large to convert to float'')
                else Inr (Finite (sgn n * int m) e)))"

text \<open>
  \<open>x * 1.2\<close> for a float \<open>x\<close> that is the conversion of an integer (zero, or of magnitude
  at least 1, so that the product is not subnormal).
\<close>

fun py_mul_1_2 :: "pyfloat \<Rightarrow> pyfloat" where
  "py_mul_1_2 (Finite m e) =
     (if m = 0 then Finite 0 0
      else (case nearest_double (nat \<bar>m\<bar> * FLOAT_1_2) (e - 52) of
              (m', e') \<Rightarrow>
                if double_overflow m' e' then (if 0 < m then PosInf else NegInf)
                else Finite (sgn m * int m') e'))"
| "py_mul_1_2 PosInf = PosInf"
| "py_mul_1_2 NegInf = NegInf"
| "py_mul_1_2 NaN = NaN"

text \<open>\<open>int(x)\<close> for a float \<open>x\<close>: truncation toward zero.\<close>

fun py_int_of_float :: "pyfloat \<Rightarrow> exn + int" where
  "py_int_of_float (Finite m e) =
     Inr (if 0 \<le> e then m * 2 ^ nat e else sgn m * (\<bar>m\<bar> div 2 ^ nat (- e)))"
| "py_int_of_float NaN = Inl (PyException ''ValueError'' ''cannot convert float NaN to integer'')"
| "py_int_of_float x =
     Inl (PyException ''OverflowError'' ''cannot convert float infinity to integer'')"

definition gas_with_buffer :: "int \<Rightarrow> exn + int" where
  "gas_with_buffer gas_estimate =
     try_bind (py_float_of_int gas_estimate) (\<lambda>x. py_int_of_float (py_mul_1_2 x))"

section \<open>The registrar (registrar.py)\<close>

subsection \<open>The instance and what lies outside it\<close>

record account =
  address :: string
  key :: bytes

text \<open>
  The chain client \<open>self._w3\<close>, as the outcomes of the calls \<open>register\<close> makes on it. A call
  returns a value or raises, \<open>is_connected()\<close> included: web3 reports a failed connection
  as \<open>False\<close>, but raises on a reply that it cannot decode.
  \<open>contract_function\<close> is \<open>eth.contract(address, abi).functions.register(url)\<close>;
  \<open>sign_transaction\<close> gives the \<open>raw_transaction\<close> of the signed transaction.
  The instance is \<open>self._w3\<close>, \<open>self._account\<close> and \<open>self._registry_address\<close>; the attribute
  \<open>self._contract\<close> is set to \<open>None\<close> by the constructor and never used again.
\<close>

record web3 =
  is_connected :: "exn + bool"
  to_checksum_address :: "string \<Rightarrow> exn + string"
  contract_function :: "string \<Rightarrow> string \<Rightarrow> exn + unit"
  get_transaction_count :: "string \<Rightarrow> exn + int"
  build_transaction :: "string \<Rightarrow> string \<Rightarrow> pydict \<Rightarrow> exn + pydict"
  estimate_gas :: "pydict \<Rightarrow> exn + int"
  sign_transaction :: "pydict \<Rightarrow> bytes \<Rightarrow> exn + bytes"
  send_raw_transaction :: "bytes \<Rightarrow> exn + bytes"
  wait_for_transaction_receipt :: "bytes \<Rightarrow> exn + pydict"

record registrar =
  self_w3 :: "web3 option"
  self_account :: "account option"
  self_registry_address :: "string option"

text \<open>
  What \<open>load_or_create_wallet\<close> reads outside the instance: the process environment, the
  file system and the \<open>Account\<close> class of eth_account. Every call returns or raises:
  \<open>path_exists\<close> is \<open>Path.exists()\<close>; \<open>open_read\<close> is opening and reading a file;
  \<open>open_write\<close> is \<open>open(path, "w")\<close>, which raises and creates nothing, or leaves the file
  existing and empty; \<open>write_json\<close> is \<open>json.dump\<close> into the open file and the close at the
  end of the \<open>with\<close> block, which gives the text now in the file, or raises with some
  part of the text left in the file. \<open>Account.from_key\<close> is given the text of the
  environment variable or the bytes of a decrypted key.
\<close>

datatype key_source = KeyText string | KeyBytes bytes

record world =
  environ :: "string \<Rightarrow> string option"
  path_exists :: "string \<Rightarrow> exn + bool"
  open_read :: "string \<Rightarrow> exn + string"
  open_write :: "string \<Rightarrow> exn option"
  account_from_key :: "key_source \<Rightarrow> exn + account"
  account_decrypt :: "string \<Rightarrow> string \<Rightarrow> exn + bytes"
  account_create :: "exn + account"
  account_encrypt :: "bytes \<Rightarrow> string \<Rightarrow> exn + json"
  write_json :: "string \<Rightarrow> json \<Rightarrow> (exn \<times> string) + string"

text \<open>An optional string that counts as true in a condition: present and not empty.\<close>

fun truthy_str :: "string option \<Rightarrow> string option" where
  "truthy_str (Some (c # cs)) = Some (c # cs)"
| "truthy_str x = None"

definition DEFAULT_KEYSTORE_PATH :: string where
  "DEFAULT_KEYSTORE_PATH = ''agent_keystore.json''"

subsection \<open>\<open>load_or_create_wallet\<close>\<close>

record wallet_result =
  wal_events :: "event list"
  wal_value :: "exn + string option"
  wal_self :: registrar
  wal_world :: world

text \<open>Priority 1: the private key of the environment.\<close>

definition wallet_from_private_key :: "world \<Rightarrow> registrar \<Rightarrow> string \<Rightarrow> wallet_result" where
  "wallet_from_private_key wld self private_key =
     (case account_from_key wld (KeyText private_key) of
        Inr acct \<Rightarrow>
          \<lparr>wal_events = [Log INFO (''Loaded wallet from private key: '' @ address acct)],
           wal_value = Inr (Some (address acct)),
           wal_self = self\<lparr>self_account := Some acct\<rparr>,
           wal_world = wld\<rparr>
      | Inl e \<Rightarrow>
          \<lparr>wal_events = [Log ERROR (''Failed to load wallet from private key: '' @ exn_str e)],
           wal_value = Inr None, wal_self = self, wal_world = wld\<rparr>)"

text \<open>
  Priority 2: the keystore file, which exists. The statements under \<open>try\<close>: read the
  file, decrypt it with the password, build the account from the key.
\<close>

definition read_keystore :: "world \<Rightarrow> string \<Rightarrow> string \<Rightarrow> exn + account" where
  "read_keystore wld password keystore_path =
     try_bind (open_read wld keystore_path) (\<lambda>encrypted_key.
     try_bind (account_decrypt wld encrypted_key password) (\<lambda>k.
     account_from_key wld (KeyBytes k)))"

definition wallet_from_keystore ::
    "world \<Rightarrow> registrar \<Rightarrow> string \<Rightarrow> string \<Rightarrow> wallet_result" where
  "wallet_from_keystore wld self password keystore_path =
     (case read_keystore wld password keystore_path of
        Inr acct \<Rightarrow>
          \<lparr>wal_events = [FileOpenRead keystore_path,
                         Log INFO (''Loaded wallet from keystore: '' @ address acct)],
           wal_value = Inr (Some (address acct)),
           wal_self = self\<lparr>self_account := Some acct\<rparr>,
           wal_world = wld\<rparr>
      | Inl e \<Rightarrow>
          \<lparr>wal_events = [FileOpenRead keystore_path,
                         Log ERROR (''Failed to decrypt keystore at '' @ keystore_path @ '': ''
                                    @ exn_str e)],
           wal_value = Inr None, wal_self = self, wal_world = wld\<rparr>)"

text \<open>
  Priority 3: a new wallet. \<open>self._account\<close> is assigned as soon as \<open>Account.create()\<close>
  returns, before the key is encrypted and written.
\<close>

definition wallet_create :: "world \<Rightarrow> registrar \<Rightarrow> string \<Rightarrow> string \<Rightarrow> wallet_result" where
  "wallet_create wld self password keystore_path =
     (let start = Log INFO ''No existing wallet found. Creating new wallet...'';
          failed = (\<lambda>e. Log ERROR (''Failed to create new wallet: '' @ exn_str e))
      in case account_create wld of
           Inl e \<Rightarrow>
             \<lparr>wal_events = [start, failed e], wal_value = Inr None, wal_self = self,
              wal_world = wld\<rparr>
         | Inr acct \<Rightarrow>
             (case account_encrypt wld (key acct) password of
                Inl e \<Rightarrow>
                  \<lparr>wal_events = [start, failed e], wal_value = Inr None,
                   wal_self = self\<lparr>self_account := Some acct\<rparr>, wal_world = wld\<rparr>
              | Inr encrypted_key \<Rightarrow>
                  (case open_write wld keystore_path of
                     Some e \<Rightarrow>
                       \<lparr>wal_events = [start, FileOpenWrite keystore_path, failed e],
                        wal_value = Inr None,
                        wal_self = self\<lparr>self_account := Some acct\<rparr>, wal_world = wld\<rparr>
                   | None \<Rightarrow>
                       (case write_json wld keystore_path encrypted_key of
                          Inl (e, partial) \<Rightarrow>
                            \<lparr>wal_events = [start, FileOpenWrite keystore_path, failed e],
                             wal_value = Inr None,
                             wal_self = self\<lparr>self_account := Some acct\<rparr>,
                             wal_world = wld
                               \<lparr>path_exists := (path_exists wld)(keystore_path := Inr True),
                                open_read := (open_read wld)(keystore_path := Inr partial)\<rparr>\<rparr>
                        | Inr text \<Rightarrow>
                            \<lparr>wal_events = [start, FileOpenWrite keystore_path,
                                           Log INFO (''Created new wallet: '' @ address acct),
                                           Log INFO (''Keystore saved to: '' @ keystore_path)],
                             wal_value = Inr (Some (address acct)),
                             wal_self = self\<lparr>self_account := Some acct\<rparr>,
                             wal_world = wld
                               \<lparr>path_exists := (path_exists wld)(keystore_path := Inr True),
                                open_read := (open_read wld)(keystore_path := Inr text)\<rparr>\<rparr>))))"

text \<open>\<open>os.getenv("AGENT_KEYSTORE_PATH", DEFAULT_KEYSTORE_PATH)\<close>.\<close>

definition configured_keystore_path :: "world \<Rightarrow> string" where
  "configured_keystore_path wld =
     (case environ wld ''AGENT_KEYSTORE_PATH'' of
        None \<Rightarrow> DEFAULT_KEYSTORE_PATH | Some p \<Rightarrow> p)"

text \<open>
  \<open>load_or_create_wallet\<close>. The value is \<open>Inl e\<close> when the exception \<open>e\<close> leaves the method
  and \<open>Inr v\<close> when it returns \<open>v\<close>. The test \<open>keystore_file.exists()\<close> stands between the
  \<open>try\<close> blocks, so an exception it raises leaves the method.
\<close>

definition load_or_create_wallet :: "world \<Rightarrow> registrar \<Rightarrow> wallet_result" where
  "load_or_create_wallet wld self =
     (case truthy_str (environ wld ''AGENT_WALLET_PASSWORD'') of
        None \<Rightarrow>
          \<lparr>wal_events = [Log WARNING ''AGENT_WALLET_PASSWORD not set. Cannot manage wallet.''],
           wal_value = Inr None, wal_self = self, wal_world = wld\<rparr>
      | Some password \<Rightarrow>
          (case truthy_str (environ wld ''AGENT_PRIVATE_KEY'') of
             Some private_key \<Rightarrow> wallet_from_private_key wld self private_key
           | None \<Rightarrow>
               (let keystore_path = configured_keystore_path wld
                in case path_exists wld keystore_path of
                     Inl e \<Rightarrow>
                       \<lparr>wal_events = [FileExists keystore_path], wal_value = Inl e,
                        wal_self = self, wal_world = wld\<rparr>
                   | Inr found \<Rightarrow>
                       (let r = (if found
                                 then wallet_from_keystore wld self password keystore_path
                                 else wallet_create wld self password keystore_path)
                        in r\<lparr>wal_events := FileExists keystore_path # wal_events r\<rparr>))))"

subsection \<open>\<open>register\<close>\<close>

text \<open>\<open>d[k]\<close> on a dictionary.\<close>

definition dict_item :: "pydict \<Rightarrow> string \<Rightarrow> exn + json" where
  "dict_item d k =
     (case map_of d k of None \<Rightarrow> Inl (PyException ''KeyError'' (sq @ k @ sq)) | Some v \<Rightarrow> Inr v)"

text \<open>\<open>v == n\<close> for an integer \<open>n\<close>: a boolean is the integer 0 or 1, a float its value.\<close>

fun py_eq_int :: "json \<Rightarrow> int \<Rightarrow> bool" where
  "py_eq_int (JInt i) n = (i = n)"
| "py_eq_int (JBool b) n = ((if b then 1 else 0) = n)"
| "py_eq_int (JFloat (Finite m e)) n =
     (if 0 \<le> e then m * 2 ^ nat e = n else m = n * 2 ^ nat (- e))"
| "py_eq_int v n = False"

text \<open>
  \<open>Web3.to_hex\<close> of a byte string (a function of the web3 library): \<open>0x\<close>, then two
  lowercase hexadecimal digits for each byte.
\<close>

definition byte_hex :: "char \<Rightarrow> string" where
  "byte_hex c = [digit_char (of_char c div 16), digit_char (of_char c mod 16)]"

definition to_hex :: "bytes \<Rightarrow> string" where
  "to_hex bs = ''0x'' @ concat (map byte_hex bs)"

text \<open>
  The inner \<open>try\<close>: estimate the gas and store the buffered value in the transaction; on any
  exception, log a warning and keep the transaction as it was built.
\<close>

definition apply_gas_estimate :: "web3 \<Rightarrow> pydict \<Rightarrow> pydict io" where
  "apply_gas_estimate w tx =
     io_try
       (io_bind (io_call (NetEstimateGas tx) (estimate_gas w tx)) (\<lambda>gas_estimate.
        io_bind (io_lift (gas_with_buffer gas_estimate)) (\<lambda>gas.
        io_return (AList.update ''gas'' (JInt gas) tx))))
       (\<lambda>e. io_bind
          (io_log WARNING (''Gas estimation failed (might be expected for gasless): ''
                           @ exn_str e @ ''. Proceeding with default.''))
          (\<lambda>_. io_return tx))"

text \<open>Sign, send, wait for the receipt and read its status.\<close>

definition submit_transaction :: "web3 \<Rightarrow> account \<Rightarrow> string \<Rightarrow> pydict \<Rightarrow> (string option) io" where
  "submit_transaction w acct agent_url tx =
     io_bind (io_call (SignTransaction tx (key acct)) (sign_transaction w tx (key acct))) (\<lambda>raw.
     io_bind (io_log INFO (''Sending registration transaction for '' @ agent_url @ ''...'')) (\<lambda>_.
     io_bind (io_call (NetSendRawTransaction raw) (send_raw_transaction w raw)) (\<lambda>tx_hash.
     io_bind (io_call (NetWaitForTransactionReceipt tx_hash)
                (wait_for_transaction_receipt w tx_hash)) (\<lambda>receipt.
     io_bind (io_lift (dict_item receipt ''status'')) (\<lambda>status.
     if py_eq_int status 1
     then io_bind
            (io_log INFO (''Successfully registered agent URL on-chain. Tx: '' @ to_hex tx_hash))
            (\<lambda>_. io_return (Some (to_hex tx_hash)))
     else io_bind
            (io_log ERROR (''Registration transaction failed. Tx: '' @ to_hex tx_hash))
            (\<lambda>_. io_return None))))))"

text \<open>The body of the outer \<open>try\<close> block.\<close>

definition register_try :: "web3 \<Rightarrow> account \<Rightarrow> string \<Rightarrow> string \<Rightarrow> (string option) io" where
  "register_try w acct registry agent_url =
     io_bind (io_call (ToChecksumAddress registry) (to_checksum_address w registry))
       (\<lambda>registry_address.
     io_bind (io_call (ContractFunction registry_address agent_url)
                (contract_function w registry_address agent_url)) (\<lambda>_.
     io_bind (io_call (NetGetTransactionCount (address acct))
                (get_transaction_count w (address acct))) (\<lambda>nonce.
     io_bind (io_call
                (NetBuildTransaction registry_address agent_url
                   [(''from'', JStr (address acct)), (''nonce'', JInt nonce)])
                (build_transaction w registry_address agent_url
                   [(''from'', JStr (address acct)), (''nonce'', JInt nonce)])) (\<lambda>tx.
     io_bind (apply_gas_estimate w tx) (\<lambda>tx'.
     submit_transaction w acct agent_url tx')))))"

text \<open>The two \<open>except\<close> clauses of the outer \<open>try\<close>.\<close>

fun register_except :: "exn \<Rightarrow> (string option) io" where
  "register_except (ContractLogicError msg) =
     io_bind (io_log ERROR (''Contract logic error during registration: '' @ msg))
       (\<lambda>_. io_return None)"
| "register_except e =
     io_bind (io_log ERROR (''Unexpected error during registration: '' @ exn_str e))
       (\<lambda>_. io_return None)"

record register_result =
  reg_events :: "event list"
  reg_outcome :: "exn + string option"
  reg_self :: registrar

definition precondition_failed :: "registrar \<Rightarrow> event list \<Rightarrow> string \<Rightarrow> register_result" where
  "precondition_failed self evs msg =
     \<lparr>reg_events = evs @ [Log ERROR msg], reg_outcome = Inr None, reg_self = self\<rparr>"

text \<open>
  \<open>register\<close>. The outcome is \<open>Inl e\<close> when the exception \<open>e\<close> leaves the method and
  \<open>Inr v\<close> when it returns \<open>v\<close>. The three checks come before the \<open>try\<close> block, so an
  exception raised by \<open>is_connected()\<close> leaves the method. The method assigns no attribute
  of \<open>self\<close>.
\<close>

definition register :: "registrar \<Rightarrow> string \<Rightarrow> bool \<Rightarrow> register_result" where
  "register self agent_url mock =
     (if mock then
        \<lparr>reg_events =
           [Log INFO (''[MOCK] Registering agent URL: '' @ agent_url),
            Log INFO (''[MOCK] Wallet Address: '' @
              (case self_account self of Some acct \<Rightarrow> address acct | None \<Rightarrow> ''N/A''))],
         reg_outcome = Inr (Some (''0x'' @ replicate 64 CHR ''0'')),
         reg_self = self\<rparr>
      else
        (case self_w3 self of
           None \<Rightarrow> precondition_failed self [] ''Cannot register: Web3 not connected.''
         | Some w \<Rightarrow>
             (case is_connected w of
                Inl e \<Rightarrow>
                  \<lparr>reg_events = [NetIsConnected], reg_outcome = Inl e, reg_self = self\<rparr>
              | Inr connected \<Rightarrow>
                  if \<not> connected then
                    precondition_failed self [NetIsConnected]
                      ''Cannot register: Web3 not connected.''
                  else
                    (case self_account self of
                       None \<Rightarrow>
                         precondition_failed self [NetIsConnected]
                           ''Cannot register: No wallet loaded.''
                     | Some acct \<Rightarrow>
                         (case truthy_str (self_registry_address self) of
                            None \<Rightarrow>
                              precondition_failed self [NetIsConnected]
                                ''Cannot register: AGENT_REGISTRY_ADDRESS not set.''
                          | Some registry \<Rightarrow>
                              (case io_try (register_try w acct registry agent_url)
                                      register_except of
                                 (evs, r) \<Rightarrow>
                                   \<lparr>reg_events = NetIsConnected # evs, reg_outcome = r,
                                    reg_self = self\<rparr>))))))"

section \<open>Concrete instances\<close>

text \<open>
  The fixtures of tests/agents/onchain_registry/test_registrar.py, used to run the model
  on concrete inputs: the chain client of \<open>test_real_registration_flow\<close> (every call succeeds),
  with the outcome of the gas estimate and the receipt as parameters, and an environment
  with a password and a keystore path.
\<close>

definition test_account :: account where
  "test_account = \<lparr>address = ''0xk1'', key = ''k1''\<rparr>"

definition test_web3 :: "exn + int \<Rightarrow> pydict \<Rightarrow> web3" where
  "test_web3 gas receipt =
     \<lparr>is_connected = Inr True,
      to_checksum_address = (\<lambda>a. Inr a),
      contract_function = (\<lambda>a u. Inr ()),
      get_transaction_count = (\<lambda>a. Inr 1),
      build_transaction = (\<lambda>a u p. Inr [(''to'', JStr ''0x...''), (''data'', JStr ''0x...'')]),
      estimate_gas = (\<lambda>tx. gas),
      sign_transaction = (\<lambda>tx k. Inr ''raw_tx''),
      send_raw_transaction = (\<lambda>raw. Inr ''tx_hash''),
      wait_for_transaction_receipt = (\<lambda>h. Inr receipt)\<rparr>"

definition test_registrar :: "web3 option \<Rightarrow> registrar" where
  "test_registrar w =
     \<lparr>self_w3 = w, self_account = Some test_account,
      self_registry_address = Some ''0x1234567890123456789012345678901234567890''\<rparr>"

definition empty_registrar :: registrar where
  "empty_registrar = \<lparr>self_w3 = None, self_account = None, self_registry_address = None\<rparr>"

text \<open>
  An environment given by its variables, where no keystore file exists, a key text of two
  characters \<open>s\<close> parses to the account with address \<open>0x\<close>\<open>s\<close>, opening the keystore
  path for writing succeeds or fails as given, and a file that was opened is written in
  full.
\<close>

definition test_world :: "(string \<Rightarrow> string option) \<Rightarrow> exn option \<Rightarrow> account \<Rightarrow> world" where
  "test_world env write_failure fresh =
     \<lparr>environ = env,
      path_exists = (\<lambda>p. Inr False),
      open_read = (\<lambda>p. Inl (PyException ''FileNotFoundError'' p)),
      open_write = (\<lambda>p. write_failure),
      account_from_key =
        (\<lambda>k. case k of
               KeyText s \<Rightarrow> if length s = 2 then Inr \<lparr>address = ''0x'' @ s, key = s\<rparr>
                            else Inl (PyException ''ValueError'' ''bad key'')
             | KeyBytes b \<Rightarrow> Inr \<lparr>address = ''0x'' @ b, key = b\<rparr>),
      account_decrypt = (\<lambda>enc pw. if pw = ''test_password'' then Inr enc
                                   else Inl (PyException ''ValueError'' ''MAC mismatch'')),
      account_create = Inr fresh,
      account_encrypt = (\<lambda>k pw. Inr (JStr k)),
      write_json = (\<lambda>p j. Inr (case j of JStr k \<Rightarrow> k | _ \<Rightarrow> []))\<rparr>"

definition test_env :: "string option \<Rightarrow> string \<Rightarrow> string option" where
  "test_env private_key =
     (\<lambda>name. if name = ''AGENT_WALLET_PASSWORD'' then Some ''test_password''
             else if name = ''AGENT_KEYSTORE_PATH'' then Some ''test_keystore.json''
             else if name = ''AGENT_PRIVATE_KEY'' then private_key
             else None)"

section \<open>Properties of the mock chain endpoint\<close>

lemma handle_rpc_dict:
  "handle_rpc (Inr (JDict kvs)) =
     (case rpc_result (case map_of kvs ''method'' of None \<Rightarrow> JNull | Some v \<Rightarrow> v)
                      (case map_of kvs ''params'' of None \<Rightarrow> JList [] | Some v \<Rightarrow> v) of
        Inr result \<Rightarrow>
          Returned (JDict [(''jsonrpc'', JStr ''2.0''),
                           (''id'', case map_of kvs ''id'' of None \<Rightarrow> JNull | Some v \<Rightarrow> v),
                           (''result'', result)])
      | Inl e \<Rightarrow> JSONResponse 500 (error_envelope e))"
  by (simp add: handle_rpc_def handle_rpc_try_def try_bind_def dict_get_def
      split: sum.splits)

text \<open>
  C8. Whatever else a request dictionary holds (any parameters, any id), for the method
  \<open>eth_sendRawTransaction\<close> the handler returns the dictionary whose \<open>result\<close> is the fixed
  hash, \<open>0x\<close> followed by 64 characters \<open>a\<close>, with the \<open>id\<close> of the request. For a receipt
  query whose first parameter is that hash it returns the dictionary whose \<open>result\<close> is the
  canned receipt, with that hash as \<open>transactionHash\<close> and the success value \<open>0x1\<close> as
  \<open>status\<close>; for a receipt query whose first parameter is any other hash string the
  \<open>result\<close> is null.
\<close>

theorem mock_rpc_send_then_receipt:
  "(map_of kvs ''method'' = Some (JStr ''eth_sendRawTransaction'') \<longrightarrow>
      handle_rpc (Inr (JDict kvs)) =
        Returned (JDict
          [(''jsonrpc'', JStr ''2.0''),
           (''id'', case map_of kvs ''id'' of None \<Rightarrow> JNull | Some v \<Rightarrow> v),
           (''result'', JStr (''0x'' @ replicate 64 CHR ''a''))]))
   \<and> (map_of kvs ''method'' = Some (JStr ''eth_getTransactionReceipt'') \<and>
      map_of kvs ''params'' = Some (JList (JStr (''0x'' @ replicate 64 CHR ''a'') # rest)) \<longrightarrow>
      handle_rpc (Inr (JDict kvs)) =
        Returned (JDict
          [(''jsonrpc'', JStr ''2.0''),
           (''id'', case map_of kvs ''id'' of None \<Rightarrow> JNull | Some v \<Rightarrow> v),
           (''result'', JDict
              [(''transactionHash'', JStr (''0x'' @ replicate 64 CHR ''a'')),
               (''transactionIndex'', JStr ''0x1''),
               (''blockHash'', JStr (''0x'' @ replicate 64 CHR ''b'')),
               (''blockNumber'', JStr ''0x1''),
               (''from'', JStr (''0x'' @ replicate 40 CHR ''1'')),
               (''to'', JStr (''0x'' @ replicate 40 CHR ''2'')),
               (''cumulativeGasUsed'', JStr ''0x5208''),
               (''gasUsed'', JStr ''0x5208''),
               (''contractAddress'', JNull),
               (''logs'', JList []),
               (''logsBloom'', JStr ''0x0''),
               (''status'', JStr ''0x1'')])]))
   \<and> (map_of kvs ''method'' = Some (JStr ''eth_getTransactionReceipt'') \<and>
      map_of kvs ''params'' = Some (JList (JStr h # rest)) \<and>
      h \<noteq> ''0x'' @ replicate 64 CHR ''a'' \<longrightarrow>
      handle_rpc (Inr (JDict kvs)) =
        Returned (JDict
          [(''jsonrpc'', JStr ''2.0''),
           (''id'', case map_of kvs ''id'' of None \<Rightarrow> JNull | Some v \<Rightarrow> v),
           (''result'', JNull)]))"
  by (simp add: handle_rpc_dict rpc_result_def try_bind_def mock_receipt_def
      MOCK_TX_HASH_def MOCK_BLOCK_HASH_def)

theorem mock_rpc_send_then_receipt_witness:
  "handle_rpc (Inr (JDict [(''jsonrpc'', JStr ''2.0''), (''method'', JStr ''eth_sendRawTransaction''),
       (''params'', JList [JStr ''0xf86b80'']), (''id'', JInt 7)])) =
     Returned (JDict [(''jsonrpc'', JStr ''2.0''), (''id'', JInt 7),
                      (''result'', JStr (''0x'' @ replicate 64 CHR ''a''))])
   \<and> (\<exists>receipt.
        handle_rpc (Inr (JDict [(''method'', JStr ''eth_getTransactionReceipt''),
          (''params'', JList [JStr (''0x'' @ replicate 64 CHR ''a'')]), (''id'', JInt 8)])) =
        Returned (JDict [(''jsonrpc'', JStr ''2.0''), (''id'', JInt 8), (''result'', JDict receipt)])
        \<and> map_of receipt ''status'' = Some (JStr ''0x1''))
   \<and> handle_rpc (Inr (JDict [(''method'', JStr ''eth_getTransactionReceipt''),
       (''params'', JList [JStr (''0x'' @ replicate 64 CHR ''0'')]), (''id'', JInt 9)])) =
     Returned (JDict [(''jsonrpc'', JStr ''2.0''), (''id'', JInt 9), (''result'', JNull)])"
  using mock_rpc_send_then_receipt
          [of "[(''jsonrpc'', JStr ''2.0''), (''method'', JStr ''eth_sendRawTransaction''),
                (''params'', JList [JStr ''0xf86b80'']), (''id'', JInt 7)]" "[]" "[]"]
        mock_rpc_send_then_receipt
          [of "[(''method'', JStr ''eth_getTransactionReceipt''),
                (''params'', JList [JStr (''0x'' @ replicate 64 CHR ''a'')]), (''id'', JInt 8)]"
              "[]" "[]"]
        mock_rpc_send_then_receipt
          [of "[(''method'', JStr ''eth_getTransactionReceipt''),
                (''params'', JList [JStr (''0x'' @ replicate 64 CHR ''0'')]), (''id'', JInt 9)]"
              "[]" "''0x'' @ replicate 64 CHR ''0''"]
  by simp

text \<open>
  C10. For a receipt query whose \<open>params\<close> field is absent, or is the empty list, or has a
  first element (\<open>params[0]\<close> is defined) that differs from the fixed hash, the handler
  returns the success dictionary \<open>{"jsonrpc": "2.0", "id": id, "result": null}\<close>: on these
  requests the guarded access \<open>params and params[0]\<close> does not raise, and the handler does
  not produce the error envelope.
\<close>

theorem mock_rpc_receipt_guard:
  assumes "map_of kvs ''method'' = Some (JStr ''eth_getTransactionReceipt'')"
    and "map_of kvs ''params'' = None \<or> map_of kvs ''params'' = Some (JList [])
         \<or> (\<exists>p x. map_of kvs ''params'' = Some p \<and> py_getitem0 p = Inr x
                \<and> x \<noteq> JStr (''0x'' @ replicate 64 CHR ''a''))"
  shows "handle_rpc (Inr (JDict kvs)) =
           Returned (JDict
             [(''jsonrpc'', JStr ''2.0''),
              (''id'', case map_of kvs ''id'' of None \<Rightarrow> JNull | Some v \<Rightarrow> v),
              (''result'', JNull)])"
  using assms
  by (auto simp: handle_rpc_dict rpc_result_def try_bind_def MOCK_TX_HASH_def)

theorem mock_rpc_receipt_guard_witness:
  "handle_rpc (Inr (JDict [(''method'', JStr ''eth_getTransactionReceipt''), (''id'', JInt 1)])) =
     Returned (JDict [(''jsonrpc'', JStr ''2.0''), (''id'', JInt 1), (''result'', JNull)])
   \<and> handle_rpc (Inr (JDict [(''method'', JStr ''eth_getTransactionReceipt''),
        (''params'', JList []), (''id'', JInt 2)])) =
     Returned (JDict [(''jsonrpc'', JStr ''2.0''), (''id'', JInt 2), (''result'', JNull)])
   \<and> handle_rpc (Inr (JDict [(''method'', JStr ''eth_getTransactionReceipt''),
        (''params'', JList [JInt 5, JStr (''0x'' @ replicate 64 CHR ''a'')]),
        (''id'', JInt 3)])) =
     Returned (JDict [(''jsonrpc'', JStr ''2.0''), (''id'', JInt 3), (''result'', JNull)])"
  using mock_rpc_receipt_guard
          [of "[(''method'', JStr ''eth_getTransactionReceipt''), (''id'', JInt 1)]"]
        mock_rpc_receipt_guard
          [of "[(''method'', JStr ''eth_getTransactionReceipt''),
                (''params'', JList []), (''id'', JInt 2)]"]
        mock_rpc_receipt_guard
          [of "[(''method'', JStr ''eth_getTransactionReceipt''),
                (''params'', JList [JInt 5, JStr (''0x'' @ replicate 64 CHR ''a'')]),
                (''id'', JInt 3)]"]
  by simp

section \<open>Properties of the gas buffer\<close>

text \<open>\<open>bit_length n\<close> is the number of binary digits of \<open>n\<close>.\<close>

lemma bit_length_le: "n < 2 ^ k \<Longrightarrow> bit_length n \<le> k"
proof (induction k arbitrary: n)
  case 0
  then show ?case by (simp add: bit_length.simps)
next
  case (Suc k)
  show ?case
  proof (cases "n = 0")
    case True
    then show ?thesis by (simp add: bit_length.simps)
  next
    case False
    from Suc.prems have "n div 2 < 2 ^ k" by simp
    then have "bit_length (n div 2) \<le> k" by (rule Suc.IH)
    with False show ?thesis by (subst bit_length.simps) simp
  qed
qed

lemma bit_length_upper: "n < 2 ^ bit_length n"
proof (induction n rule: bit_length.induct)
  case (1 n)
  show ?case
  proof (cases "n = 0")
    case True
    then show ?thesis by simp
  next
    case False
    then have "n div 2 < 2 ^ bit_length (n div 2)" using 1 by simp
    then have "n < 2 * 2 ^ bit_length (n div 2)" by linarith
    with False show ?thesis by (subst bit_length.simps) simp
  qed
qed

lemma bit_length_gt: "2 ^ k \<le> n \<Longrightarrow> k < bit_length n"
proof (rule ccontr)
  assume a: "2 ^ k \<le> n" and "\<not> k < bit_length n"
  then have "bit_length n \<le> k" by simp
  then have "(2::nat) ^ bit_length n \<le> 2 ^ k" by (simp add: power_increasing)
  with bit_length_upper [of n] a show False by linarith
qed

text \<open>Rounding to the nearest moves a quotient up by at most half a unit, and never down.\<close>

lemma round_half_even_lower: "p div 2 ^ s \<le> round_half_even p s"
  by (simp add: round_half_even_def Let_def)

lemma round_half_even_upper: "2 * (round_half_even p s * 2 ^ s) \<le> 2 * p + 2 ^ s"
proof -
  define U where "U = (2::nat) ^ s"
  define q where "q = p div U"
  define r where "r = p mod U"
  have p: "p = q * U + r"
    unfolding q_def r_def by (metis div_mult_mod_eq)
  have m: "round_half_even p s = (if U < 2 * r \<or> (2 * r = U \<and> odd q) then q + 1 else q)"
    by (simp add: round_half_even_def Let_def U_def q_def r_def)
  have "2 * ((if U < 2 * r \<or> (2 * r = U \<and> odd q) then q + 1 else q) * U)
          \<le> 2 * (q * U + r) + U"
    by (auto simp: algebra_simps)
  then have "2 * (round_half_even p s * U) \<le> 2 * p + U"
    using m p by simp
  then show ?thesis by (simp add: U_def)
qed

lemma round_half_even_up:
  "2 ^ s < 2 * (p mod 2 ^ s) \<Longrightarrow> round_half_even p s = p div 2 ^ s + 1"
  by (simp add: round_half_even_def Let_def)

text \<open>
  The exact product of \<open>n\<close> with the mantissa of 1.2 is \<open>P = n * FLOAT_1_2\<close>, and
  \<open>5 * P + n = 6 * n * 2^52\<close>. For \<open>2 \<le> n < 2^50\<close> it has between 54 and 103 binary
  digits, so it is rounded at a unit \<open>2^s\<close> with \<open>1 \<le> s \<le> 50\<close>. When 5 divides \<open>n\<close> the
  product lies just below the multiple \<open>(6 n div 5) * 2^52\<close> of the unit and is rounded up
  to it; otherwise it lies above that multiple, and below the next multiple of \<open>2^52\<close> by
  more than half a unit. Truncating at the binary point gives \<open>6 n div 5\<close> in both cases.
\<close>

lemma gas_core:
  fixes n :: nat
  assumes n2: "2 \<le> n" and nb: "n < 2 ^ 50"
  defines "P \<equiv> n * FLOAT_1_2"
  shows "53 < bit_length P \<and> bit_length P \<le> 103 \<and>
         round_half_even P (bit_length P - 53) div 2 ^ (52 - (bit_length P - 53)) = 6 * n div 5"
proof -
  define s where "s = bit_length P - 53"
  define U where "U = (2::nat) ^ s"
  define T where "T = (2::nat) ^ (52 - s)"
  define k where "k = 6 * n div 5"
  define f where "f = 6 * n mod 5"
  define m where "m = round_half_even P s"
  have P5: "5 * P + n = 6 * n * 2 ^ 52"
    unfolding P_def FLOAT_1_2_def by simp
  have "2 ^ 53 \<le> P"
    unfolding P_def FLOAT_1_2_def using n2 by simp
  then have b_lo: "53 < bit_length P" by (rule bit_length_gt)
  have "P < 2 ^ 103"
    unfolding P_def FLOAT_1_2_def using nb by simp
  then have b_hi: "bit_length P \<le> 103" by (rule bit_length_le)
  have s1: "1 \<le> s" and s50: "s \<le> 50"
    using b_lo b_hi by (simp_all add: s_def)
  have "U * T = 2 ^ (s + (52 - s))"
    unfolding U_def T_def by (simp only: power_add)
  then have UT: "U * T = 2 ^ 52" using s50 by simp
  have "bit_length P = s + 53" using b_lo by (simp add: s_def)
  then have "(2::nat) ^ bit_length P = U * 2 ^ 53"
    by (simp add: U_def power_add)
  with bit_length_upper [of P] have Pb: "P < U * 2 ^ 53" by simp
  have "(2::nat) ^ s \<le> 2 ^ 50" using s50 by (rule power_increasing) simp
  then have U50: "U \<le> 2 ^ 50" by (simp add: U_def)
  have T0: "0 < T" by (simp add: T_def)
  have kf: "6 * n = 5 * k + f" and f5: "f < 5"
    unfolding k_def f_def by simp_all
  have kTU: "k * T * U = k * 2 ^ 52"
    using UT by (simp add: mult.assoc mult.commute)
  have "m div T = k"
  proof (cases "f = 0")
    case True
    with kf have "5 dvd n" by presburger
    then obtain j where j: "n = 5 * j" by (rule dvdE)
    with kf True have k6: "k = 6 * j" by simp
    from n2 j have j1: "1 \<le> j" by simp
    from P5 j k6 have Pj: "P + j = k * 2 ^ 52" by simp
    with Pb k6 have jU: "2 * j < U" by simp
    define q0 where "q0 = k * T - 1"
    define r0 where "r0 = U - j"
    from k6 j1 T0 have "1 \<le> k * T" by (simp add: Suc_le_eq)
    then have q0: "q0 + 1 = k * T" by (simp add: q0_def)
    from jU have r0: "r0 + j = U" and r0U: "r0 < U" and r0h: "U < 2 * r0"
      using j1 by (simp_all add: r0_def)
    have "(q0 + 1) * U = P + j" using q0 kTU Pj by simp
    then have "q0 * U + (r0 + j) = P + j" using r0 by (simp add: algebra_simps)
    then have Pq: "P = r0 + q0 * U" by simp
    have "P div U = q0" using r0U by (simp add: Pq)
    moreover have "P mod U = r0" using r0U by (simp add: Pq)
    ultimately have "m = q0 + 1"
      unfolding m_def using r0h round_half_even_up [of s P] by (simp add: U_def)
    then show ?thesis using q0 T0 by simp
  next
    case False
    with f5 have f1: "1 \<le> f" and f4: "f \<le> 4" by simp_all
    from P5 kf have P5': "5 * P + n = 5 * (k * 2 ^ 52) + f * 2 ^ 52"
      by (simp add: algebra_simps)
    have "k * 2 ^ 52 \<le> P" using P5' f1 nb by simp
    then have "k * T * U \<le> P" by (simp only: kTU)
    then have "k * T * U div U \<le> P div U" by (rule div_le_mono)
    then have "k * T \<le> P div U" by (simp add: U_def)
    also have "P div U \<le> m"
      unfolding m_def U_def by (rule round_half_even_lower)
    finally have lo: "T * k \<le> m" by (simp add: mult.commute)
    have hi: "m < T * Suc k"
    proof (rule ccontr)
      assume "\<not> m < T * Suc k"
      then have "T * Suc k \<le> m" by simp
      then have "T * Suc k * U \<le> m * U" by (rule mult_le_mono1)
      moreover have "T * Suc k * U = (k + 1) * (U * T)"
        by (simp add: algebra_simps)
      ultimately have a: "(k + 1) * 2 ^ 52 \<le> m * U" by (simp only: UT)
      have b: "2 * (m * U) \<le> 2 * P + U"
        unfolding m_def U_def by (rule round_half_even_upper)
      from a b U50 P5' f4 show False by simp
    qed
    from lo hi show ?thesis by (rule div_nat_eqI)
  qed
  with b_lo b_hi show ?thesis by (simp add: m_def s_def T_def k_def)
qed

lemma bit_length_eq: "2 ^ k \<le> n \<Longrightarrow> n < 2 ^ Suc k \<Longrightarrow> bit_length n = Suc k"
  using bit_length_gt [of k n] bit_length_le [of n "Suc k"] by simp

text \<open>Hence \<open>int(g * 1.2)\<close> is the integer part of \<open>1.2 g\<close> for \<open>0 \<le> g < 2^50\<close>.\<close>

lemma gas_with_buffer_small:
  fixes n :: nat
  assumes nb: "n < 2 ^ 50"
  shows "gas_with_buffer (int n) = Inr (int (6 * n div 5))"
proof -
  consider "n = 0" | "n = 1" | "2 \<le> n" by linarith
  then show ?thesis
  proof cases
    case 1
    then show ?thesis
      by (simp add: gas_with_buffer_def py_float_of_int_def try_bind_def)
  next
    case 2
    have b1: "bit_length (Suc 0) = 1"
      using bit_length_eq [of 0 1] by simp
    have bD: "bit_length FLOAT_1_2 = 53"
      using bit_length_eq [of 52 FLOAT_1_2] by (simp add: FLOAT_1_2_def)
    have "nearest_double 1 0 = (1, 0)"
      by (simp add: nearest_double_def b1 Let_def)
    moreover have "nearest_double FLOAT_1_2 (- 52) = (FLOAT_1_2, - 52)"
      by (simp add: nearest_double_def bD Let_def)
    ultimately show ?thesis using 2
      by (simp add: gas_with_buffer_def py_float_of_int_def try_bind_def double_overflow_def
          FLOAT_1_2_def)
  next
    case 3
    define P where "P = n * FLOAT_1_2"
    define s where "s = bit_length P - 53"
    define m where "m = round_half_even P s"
    from gas_core [OF 3 nb]
    have b: "53 < bit_length P" "bit_length P \<le> 103" and r: "m div 2 ^ (52 - s) = 6 * n div 5"
      unfolding P_def s_def m_def by blast+
    from b have s50: "s \<le> 50" by (simp add: s_def)
    from nb have "n < 2 ^ 53" by simp
    then have "bit_length n \<le> 53" by (rule bit_length_le)
    then have nd: "nearest_double n 0 = (n, 0)"
      by (simp add: nearest_double_def Let_def)
    from nb have no: "\<not> double_overflow n 0"
      by (simp add: double_overflow_def)
    from 3 nd no have fl: "py_float_of_int (int n) = Inr (Finite (int n) 0)"
      by (simp add: py_float_of_int_def)
    from b have pd: "nearest_double P (- 52) = (m, - 52 + int s)"
      by (simp add: nearest_double_def m_def s_def Let_def)
    from s50 have po: "\<not> double_overflow m (- 52 + int s)"
      by (simp add: double_overflow_def)
    from 3 pd po have mul: "py_mul_1_2 (Finite (int n) 0) = Finite (int m) (- 52 + int s)"
      by (simp add: P_def)
    from s50 have e: "nat (52 - int s) = 52 - s" by linarith
    have "py_int_of_float (Finite (int m) (- 52 + int s)) = Inr (int (m div 2 ^ (52 - s)))"
      using s50 by (cases "m = 0") (simp_all add: e zdiv_int)
    with fl mul r show ?thesis
      by (simp add: gas_with_buffer_def try_bind_def)
  qed
qed

lemma gas_with_buffer_floor:
  assumes "0 \<le> g" and "g < 2 ^ 50"
  shows "gas_with_buffer g = Inr (g * 6 div 5)"
proof -
  from assms have "nat g < 2 ^ 50" by simp
  then have "gas_with_buffer (int (nat g)) = Inr (int (6 * nat g div 5))"
    by (rule gas_with_buffer_small)
  moreover have "int (6 * nat g div 5) = g * 6 div 5"
    using assms by (simp add: zdiv_int mult.commute)
  ultimately show ?thesis using assms by simp
qed


text \<open>Beyond the range of exact agreement the double product can round up past an integer.\<close>

lemma gas_with_buffer_big:
  "gas_with_buffer 3753005166562289 = Inr 4503606199874747"
proof -
  have "bit_length 3753005166562289 \<le> 53"
    by (rule bit_length_le) simp
  then have nd: "nearest_double 3753005166562289 0 = (3753005166562289, 0)"
    by (simp add: nearest_double_def Let_def)
  have bl: "bit_length 20282439203579364467227204477955 = 105"
    using bit_length_eq [of 104 20282439203579364467227204477955] by simp
  have pd: "nearest_double (3753005166562289 * FLOAT_1_2) (- 52) = (4503606199874747, 0)"
    by (simp add: nearest_double_def bl round_half_even_def FLOAT_1_2_def Let_def)
  show ?thesis
    by (simp add: gas_with_buffer_def py_float_of_int_def try_bind_def nd pd double_overflow_def)
qed

section \<open>Properties of \<open>register\<close>\<close>

lemma register_except_returns: "\<exists>evs. register_except e = (evs, Inr None)"
  by (cases e) (simp_all add: io_bind_def io_log_def io_return_def)

lemma io_try_register_except:
  "\<exists>evs v. io_try m register_except = (evs, Inr v)"
proof (cases m)
  case (Pair evs r)
  show ?thesis
  proof (cases r)
    case (Inl e)
    obtain evs' where "register_except e = (evs', Inr None)"
      using register_except_returns by blast
    with Pair Inl show ?thesis by (simp add: io_try_def)
  next
    case (Inr v)
    with Pair show ?thesis by (simp add: io_try_def)
  qed
qed

lemma io_try_register_except_raised:
  "\<exists>evs'. io_try (evs, Inl e) register_except = (evs', Inr None)"
proof -
  obtain evs' where "register_except e = (evs', Inr None)"
    using register_except_returns by blast
  then show ?thesis by (simp add: io_try_def)
qed

lemma register_checked:
  assumes "self_w3 self = Some w" and "is_connected w = Inr True" and "self_account self = Some acct"
    and "truthy_str (self_registry_address self) = Some registry"
  shows "register self agent_url False =
           (case io_try (register_try w acct registry agent_url) register_except of
              (evs, r) \<Rightarrow> \<lparr>reg_events = NetIsConnected # evs, reg_outcome = r, reg_self = self\<rparr>)"
  using assms by (simp add: register_def)

text \<open>
  When there is no client, or the connectivity check returns, \<open>register\<close> with
  \<open>mock = False\<close> returns a value, and that value is \<open>None\<close> for a client that is not
  connected, a missing wallet, a missing registry address and any exception raised in the
  body of the \<open>try\<close> block (a contract revert or any other error).
\<close>

lemma register_returns_after_check:
  "(self_w3 self = None \<or> (self_w3 self = Some w \<and> is_connected w = Inr b) \<longrightarrow>
      (\<exists>v. reg_outcome (register self agent_url False) = Inr v))
   \<and> (self_w3 self = None \<or> (self_w3 self = Some w \<and> is_connected w = Inr False) \<longrightarrow>
          reg_outcome (register self agent_url False) = Inr None)
   \<and> (self_w3 self = Some w \<and> is_connected w = Inr True \<and> self_account self = None \<longrightarrow>
          reg_outcome (register self agent_url False) = Inr None)
   \<and> (self_w3 self = Some w \<and> is_connected w = Inr True \<and>
        truthy_str (self_registry_address self) = None \<longrightarrow>
          reg_outcome (register self agent_url False) = Inr None)
   \<and> (self_w3 self = Some w \<and> is_connected w = Inr True \<and> self_account self = Some acct \<and>
        truthy_str (self_registry_address self) = Some registry \<and>
        register_try w acct registry agent_url = (evs, Inl e) \<longrightarrow>
          reg_outcome (register self agent_url False) = Inr None)"
proof (intro conjI impI)
  assume a: "self_w3 self = None \<or> (self_w3 self = Some w \<and> is_connected w = Inr b)"
  show "\<exists>v. reg_outcome (register self agent_url False) = Inr v"
  proof (cases "\<exists>acct registry. self_w3 self = Some w \<and> is_connected w = Inr True \<and>
      self_account self = Some acct \<and> truthy_str (self_registry_address self) = Some registry")
    case True
    then obtain acct registry where c: "self_w3 self = Some w" "is_connected w = Inr True"
      "self_account self = Some acct" "truthy_str (self_registry_address self) = Some registry"
      by blast
    obtain evs v
      where "io_try (register_try w acct registry agent_url) register_except = (evs, Inr v)"
      using io_try_register_except by blast
    then show ?thesis by (simp add: register_checked [OF c])
  next
    case False
    with a show ?thesis
      by (auto simp: register_def precondition_failed_def split: option.splits)
  qed
next
  assume "self_w3 self = None \<or> (self_w3 self = Some w \<and> is_connected w = Inr False)"
  then show "reg_outcome (register self agent_url False) = Inr None"
    by (auto simp: register_def precondition_failed_def)
next
  assume "self_w3 self = Some w \<and> is_connected w = Inr True \<and> self_account self = None"
  then show "reg_outcome (register self agent_url False) = Inr None"
    by (simp add: register_def precondition_failed_def)
next
  assume "self_w3 self = Some w \<and> is_connected w = Inr True \<and>
        truthy_str (self_registry_address self) = None"
  then show "reg_outcome (register self agent_url False) = Inr None"
    by (simp add: register_def precondition_failed_def split: option.splits)
next
  assume a: "self_w3 self = Some w \<and> is_connected w = Inr True \<and> self_account self = Some acct \<and>
          truthy_str (self_registry_address self) = Some registry \<and>
          register_try w acct registry agent_url = (evs, Inl e)"
  obtain evs' where "io_try (evs, Inl e) register_except = (evs', Inr None)"
    using io_try_register_except_raised by blast
  with a show "reg_outcome (register self agent_url False) = Inr None"
    by (simp add: register_checked [of self w acct registry])
qed

text \<open>An exception of the connectivity check leaves \<open>register\<close>: the check is not in the \<open>try\<close>.\<close>

lemma register_check_raises:
  assumes "self_w3 self = Some w" and "is_connected w = Inl e"
  shows "register self agent_url False =
           \<lparr>reg_events = [NetIsConnected], reg_outcome = Inl e, reg_self = self\<rparr>"
  using assms by (simp add: register_def)


text \<open>
  C1 does not hold of the code. The instance is the one of the tests, with a wallet and a
  registry address, whose chain client answers the connectivity check with a reply that is
  not JSON, so that \<open>is_connected()\<close> raises \<open>JSONDecodeError\<close>: \<open>register\<close> with
  \<open>mock = False\<close> lets that exception out instead of returning \<open>None\<close>, after the single
  network call of the check.
\<close>

theorem register_raises_at_connectivity_check:
  "register
     (test_registrar (Some ((test_web3 (Inr 21000) [(''status'', JInt 1)])
        \<lparr>is_connected :=
           Inl (PyException ''JSONDecodeError'' ''Expecting value: line 1 column 1 (char 0)'')\<rparr>)))
     ''http://test.agent'' False
   = \<lparr>reg_events = [NetIsConnected],
      reg_outcome =
        Inl (PyException ''JSONDecodeError'' ''Expecting value: line 1 column 1 (char 0)''),
      reg_self =
        test_registrar (Some ((test_web3 (Inr 21000) [(''status'', JInt 1)])
          \<lparr>is_connected :=
             Inl (PyException ''JSONDecodeError''
                    ''Expecting value: line 1 column 1 (char 0)'')\<rparr>))\<rparr>"
  by (simp add: register_def test_registrar_def test_web3_def)

text \<open>
  C2. \<open>register\<close> with \<open>mock = True\<close> returns, for every instance and every URL, the
  placeholder hash \<open>0x\<close> followed by 64 zeros; its trace holds no network event (only the
  two log lines) and the instance is unchanged.
\<close>

theorem register_mock:
  "reg_outcome (register self agent_url True) = Inr (Some (''0x'' @ replicate 64 CHR ''0''))
   \<and> filter is_network (reg_events (register self agent_url True)) = []
   \<and> reg_self (register self agent_url True) = self"
  by (simp add: register_def)

lemma replicate_64_zeros:
  "replicate 64 CHR ''0'' = ''0000000000000000000000000000000000000000000000000000000000000000''"
  by (simp add: numeral_eq_Suc)

theorem register_mock_witness:
  "reg_outcome (register empty_registrar ''http://test.agent'' True) =
     Inr (Some ''0x0000000000000000000000000000000000000000000000000000000000000000'')"
  using register_mock [of empty_registrar "''http://test.agent''"]
  by (simp add: replicate_64_zeros)

lemma fst_io_bind:
  "fst (io_bind m f) = fst m @ (case snd m of Inl e \<Rightarrow> [] | Inr x \<Rightarrow> fst (f x))"
  by (cases m) (auto simp: io_bind_def split: sum.splits prod.splits)


lemma fst_io_try:
  "fst (io_try m h) = fst m @ (case snd m of Inl e \<Rightarrow> fst (h e) | Inr x \<Rightarrow> [])"
  by (cases m) (auto simp: io_try_def split: sum.splits prod.splits)



lemma register_checked_events:
  assumes "self_w3 self = Some w" and "is_connected w = Inr True" and "self_account self = Some acct"
    and "truthy_str (self_registry_address self) = Some registry"
  shows "reg_events (register self agent_url False) =
           NetIsConnected # fst (register_try w acct registry agent_url) @
             (case snd (register_try w acct registry agent_url) of
                Inl e \<Rightarrow> fst (register_except e) | Inr v \<Rightarrow> [])"
  by (simp add: register_checked [OF assms] fst_io_try [symmetric] split: prod.splits)

lemma register_try_built:
  assumes "to_checksum_address w registry = Inr registry_address"
    and "contract_function w registry_address agent_url = Inr u"
    and "get_transaction_count w (address acct) = Inr nonce"
    and "build_transaction w registry_address agent_url
           [(''from'', JStr (address acct)), (''nonce'', JInt nonce)] = Inr tx"
  shows "register_try w acct registry agent_url =
           io_bind
             ([ToChecksumAddress registry, ContractFunction registry_address agent_url,
               NetGetTransactionCount (address acct),
               NetBuildTransaction registry_address agent_url
                 [(''from'', JStr (address acct)), (''nonce'', JInt nonce)]], Inr tx)
             (\<lambda>tx. io_bind (apply_gas_estimate w tx) (submit_transaction w acct agent_url))"
  using assms by (simp add: register_try_def io_bind_def io_call_def split: prod.splits)

lemma apply_gas_estimate_ok:
  assumes "estimate_gas w tx = Inr g" and "gas_with_buffer g = Inr b"
  shows "apply_gas_estimate w tx = ([NetEstimateGas tx], Inr (AList.update ''gas'' (JInt b) tx))"
  using assms
  by (simp add: apply_gas_estimate_def io_try_def io_bind_def io_call_def io_lift_def io_return_def)

lemma apply_gas_estimate_failed:
  assumes "estimate_gas w tx = Inl e"
  shows "apply_gas_estimate w tx =
           ([NetEstimateGas tx,
             Log WARNING (''Gas estimation failed (might be expected for gasless): ''
                          @ exn_str e @ ''. Proceeding with default.'')], Inr tx)"
  using assms
  by (simp add: apply_gas_estimate_def io_try_def io_bind_def io_call_def io_log_def io_return_def)

lemma apply_gas_estimate_returns: "\<exists>evs tx'. apply_gas_estimate w tx = (evs, Inr tx')"
  by (cases "estimate_gas w tx"; cases "gas_with_buffer (projr (estimate_gas w tx))")
     (auto simp: apply_gas_estimate_def io_try_def io_bind_def io_call_def io_lift_def
        io_return_def io_log_def)

lemma submit_transaction_signs:
  "\<exists>rest. fst (submit_transaction w acct agent_url tx) = SignTransaction tx (key acct) # rest"
  by (simp add: submit_transaction_def fst_io_bind io_call_def)

lemma submit_transaction_sends:
  assumes "sign_transaction w tx (key acct) = Inr raw"
  shows "NetSendRawTransaction raw \<in> set (fst (submit_transaction w acct agent_url tx))"
  using assms by (simp add: submit_transaction_def fst_io_bind io_call_def io_log_def)







text \<open>
  C4. With \<open>mock = False\<close> the checks are made in the order: chain client connected, wallet
  loaded, registry address set. The first that fails decides the error message and the
  result \<open>None\<close>, whatever the state of the later ones, and the trace ends there: nothing of
  the transaction build is attempted. When the three hold, the \<open>try\<close> block is entered (its
  first step is the checksum of the registry address).
\<close>

theorem register_precondition_order:
  "(self_w3 self = None \<longrightarrow>
      register self agent_url False =
        \<lparr>reg_events = [Log ERROR ''Cannot register: Web3 not connected.''],
         reg_outcome = Inr None, reg_self = self\<rparr>)
   \<and> (self_w3 self = Some w \<and> is_connected w = Inr False \<longrightarrow>
      register self agent_url False =
        \<lparr>reg_events = [NetIsConnected, Log ERROR ''Cannot register: Web3 not connected.''],
         reg_outcome = Inr None, reg_self = self\<rparr>)
   \<and> (self_w3 self = Some w \<and> is_connected w = Inr True \<and> self_account self = None \<longrightarrow>
      register self agent_url False =
        \<lparr>reg_events = [NetIsConnected, Log ERROR ''Cannot register: No wallet loaded.''],
         reg_outcome = Inr None, reg_self = self\<rparr>)
   \<and> (self_w3 self = Some w \<and> is_connected w = Inr True \<and> self_account self = Some acct \<and>
      truthy_str (self_registry_address self) = None \<longrightarrow>
      register self agent_url False =
        \<lparr>reg_events = [NetIsConnected,
                       Log ERROR ''Cannot register: AGENT_REGISTRY_ADDRESS not set.''],
         reg_outcome = Inr None, reg_self = self\<rparr>)
   \<and> (self_w3 self = Some w \<and> is_connected w = Inr True \<and> self_account self = Some acct \<and>
      truthy_str (self_registry_address self) = Some registry \<longrightarrow>
      (\<exists>rest. reg_events (register self agent_url False) =
                NetIsConnected # ToChecksumAddress registry # rest))"
proof (intro conjI impI)
  assume "self_w3 self = Some w \<and> is_connected w = Inr True \<and> self_account self = Some acct \<and>
      truthy_str (self_registry_address self) = Some registry"
  then have c: "self_w3 self = Some w" "is_connected w = Inr True" "self_account self = Some acct"
    "truthy_str (self_registry_address self) = Some registry" by simp_all
  have "\<exists>rest. fst (register_try w acct registry agent_url) = ToChecksumAddress registry # rest"
    by (simp add: register_try_def fst_io_bind io_call_def)
  then show "\<exists>rest. reg_events (register self agent_url False) =
                NetIsConnected # ToChecksumAddress registry # rest"
    by (auto simp: register_checked_events [OF c])
qed (simp_all add: register_def precondition_failed_def)

theorem register_precondition_order_witness:
  "register empty_registrar ''http://test.agent'' False =
     \<lparr>reg_events = [Log ERROR ''Cannot register: Web3 not connected.''],
      reg_outcome = Inr None, reg_self = empty_registrar\<rparr>
   \<and> register (empty_registrar\<lparr>self_w3 := Some (test_web3 (Inr 21000) [])\<rparr>)
        ''http://test.agent'' False =
     \<lparr>reg_events = [NetIsConnected, Log ERROR ''Cannot register: No wallet loaded.''],
      reg_outcome = Inr None,
      reg_self = empty_registrar\<lparr>self_w3 := Some (test_web3 (Inr 21000) [])\<rparr>\<rparr>"
  using register_precondition_order [of empty_registrar "''http://test.agent''"]
        register_precondition_order
          [of "empty_registrar\<lparr>self_w3 := Some (test_web3 (Inr 21000) [])\<rparr>"
              "''http://test.agent''" "test_web3 (Inr 21000) []"]
  by (simp add: empty_registrar_def test_web3_def)

text \<open>
  C7, as amended. After the transaction is built: when the gas estimate succeeds with a
  value \<open>g\<close>, \<open>0 \<le> g < 2^50\<close>, the transaction that is signed carries the gas limit
  \<open>\<lfloor>1.2 g\<rfloor> = 6 g div 5\<close>; when the gas estimate raises, the transaction is signed as it
  was built, with no gas value added, and if signing succeeds it is sent. (The product is
  computed in double precision; from about \<open>3.75 * 10^15\<close> on it can exceed the integer
  part of 1.2 times the estimate.)
\<close>

theorem register_gas_buffer:
  assumes "self_w3 self = Some w" and "is_connected w = Inr True" and "self_account self = Some acct"
    and "truthy_str (self_registry_address self) = Some registry"
    and "to_checksum_address w registry = Inr registry_address"
    and "contract_function w registry_address agent_url = Inr u"
    and "get_transaction_count w (address acct) = Inr nonce"
    and "build_transaction w registry_address agent_url
           [(''from'', JStr (address acct)), (''nonce'', JInt nonce)] = Inr tx"
  shows "(estimate_gas w tx = Inr g \<and> 0 \<le> g \<and> g < 2 ^ 50 \<longrightarrow>
            SignTransaction (AList.update ''gas'' (JInt (g * 6 div 5)) tx) (key acct)
              \<in> set (reg_events (register self agent_url False)))
         \<and> (estimate_gas w tx = Inl e \<longrightarrow>
            SignTransaction tx (key acct) \<in> set (reg_events (register self agent_url False))
            \<and> (sign_transaction w tx (key acct) = Inr raw \<longrightarrow>
                 NetSendRawTransaction raw \<in> set (reg_events (register self agent_url False))))"
proof -
  have ev: "set (fst (submit_transaction w acct agent_url tx'))
              \<subseteq> set (reg_events (register self agent_url False))"
    if "apply_gas_estimate w tx = (gevs, Inr tx')" for gevs tx'
    using that
    by (auto simp: register_checked_events [OF assms(1-4)] register_try_built [OF assms(5-8)]
        fst_io_bind)
  have sg: "SignTransaction tx' (key acct) \<in> set (fst (submit_transaction w acct agent_url tx'))"
    for tx'
    using submit_transaction_signs [of w acct agent_url tx'] by auto
  show ?thesis
  proof (intro conjI impI)
    assume a: "estimate_gas w tx = Inr g \<and> 0 \<le> g \<and> g < 2 ^ 50"
    then have "gas_with_buffer g = Inr (g * 6 div 5)"
      by (simp add: gas_with_buffer_floor)
    with a have "apply_gas_estimate w tx =
        ([NetEstimateGas tx], Inr (AList.update ''gas'' (JInt (g * 6 div 5)) tx))"
      by (simp add: apply_gas_estimate_ok)
    from ev [OF this] sg
    show "SignTransaction (AList.update ''gas'' (JInt (g * 6 div 5)) tx) (key acct)
            \<in> set (reg_events (register self agent_url False))"
      by blast
  next
    assume "estimate_gas w tx = Inl e"
    then have g: "apply_gas_estimate w tx =
        ([NetEstimateGas tx,
          Log WARNING (''Gas estimation failed (might be expected for gasless): ''
                       @ exn_str e @ ''. Proceeding with default.'')], Inr tx)"
      by (rule apply_gas_estimate_failed)
    from ev [OF g] sg
    show "SignTransaction tx (key acct) \<in> set (reg_events (register self agent_url False))"
      by blast
    assume "sign_transaction w tx (key acct) = Inr raw"
    then have "NetSendRawTransaction raw \<in> set (fst (submit_transaction w acct agent_url tx))"
      by (rule submit_transaction_sends)
    with ev [OF g]
    show "NetSendRawTransaction raw \<in> set (reg_events (register self agent_url False))"
      by blast
  qed
qed

theorem register_gas_buffer_witness:
  "SignTransaction [(''to'', JStr ''0x...''), (''data'', JStr ''0x...''), (''gas'', JInt 25200)] ''k1''
     \<in> set (reg_events (register
           (test_registrar (Some (test_web3 (Inr 21000) [(''status'', JInt 1)])))
           ''http://test.agent'' False))
   \<and> SignTransaction [(''to'', JStr ''0x...''), (''data'', JStr ''0x...'')] ''k1''
     \<in> set (reg_events (register
           (test_registrar (Some (test_web3 (Inl (PyException ''ValueError'' ''no gas''))
              [(''status'', JInt 1)])))
           ''http://test.agent'' False))
   \<and> NetSendRawTransaction ''raw_tx''
     \<in> set (reg_events (register
           (test_registrar (Some (test_web3 (Inl (PyException ''ValueError'' ''no gas''))
              [(''status'', JInt 1)])))
           ''http://test.agent'' False))"
proof -
  let ?u = "''http://test.agent''"
  let ?r = "''0x1234567890123456789012345678901234567890''"
  let ?tx = "[(''to'', JStr ''0x...''), (''data'', JStr ''0x...'')]"
  let ?e = "PyException ''ValueError'' ''no gas''"
  let ?rc = "[(''status'', JInt 1)]"
  have "(21000::int) * 6 div 5 = 25200" by simp
  with register_gas_buffer
         [of "test_registrar (Some (test_web3 (Inr 21000) ?rc))" "test_web3 (Inr 21000) ?rc"
             test_account ?r ?r ?u "()" 1 ?tx 21000]
  have a: "SignTransaction (AList.update ''gas'' (JInt 25200) ?tx) ''k1''
             \<in> set (reg_events (register (test_registrar (Some (test_web3 (Inr 21000) ?rc)))
                   ?u False))"
    by (simp add: test_registrar_def test_web3_def test_account_def)
  from register_gas_buffer
         [of "test_registrar (Some (test_web3 (Inl ?e) ?rc))" "test_web3 (Inl ?e) ?rc"
             test_account ?r ?r ?u "()" 1 ?tx _ ?e "''raw_tx''"]
  have b: "SignTransaction ?tx ''k1''
             \<in> set (reg_events (register (test_registrar (Some (test_web3 (Inl ?e) ?rc))) ?u False))
           \<and> NetSendRawTransaction ''raw_tx''
             \<in> set (reg_events (register (test_registrar (Some (test_web3 (Inl ?e) ?rc))) ?u False))"
    by (simp add: test_registrar_def test_web3_def test_account_def)
  from a b show ?thesis by simp
qed

text \<open>
  C7 as stated fails for a large estimate: for the gas estimate 3753005166562289 the
  transaction that is signed carries the gas limit 4503606199874747, while the integer
  part of 1.2 times the estimate is 4503606199874746.
\<close>

theorem register_gas_buffer_counterexample:
  "SignTransaction
     [(''to'', JStr ''0x...''), (''data'', JStr ''0x...''), (''gas'', JInt 4503606199874747)] ''k1''
     \<in> set (reg_events (register
           (test_registrar (Some (test_web3 (Inr 3753005166562289) [(''status'', JInt 1)])))
           ''http://test.agent'' False))
   \<and> (3753005166562289 * 6 div 5 :: int) = 4503606199874746"
  by (simp add: register_def register_try_def apply_gas_estimate_def submit_transaction_def
      io_bind_def io_call_def io_try_def io_return_def io_log_def io_lift_def dict_item_def
      test_registrar_def test_web3_def test_account_def gas_with_buffer_big)

section \<open>Properties of \<open>load_or_create_wallet\<close>\<close>

lemmas wallet_defs =
  load_or_create_wallet_def wallet_from_private_key_def wallet_from_keystore_def
  wallet_create_def read_keystore_def configured_keystore_path_def try_bind_def

lemmas test_world_defs =
  test_world_def test_env_def test_account_def empty_registrar_def

text \<open>
  C6. When the wallet password is absent from the environment (or empty),
  \<open>load_or_create_wallet\<close> returns \<open>None\<close> after one warning, whatever else is configured:
  no private key is parsed, no file is touched, the instance is unchanged.
\<close>

theorem wallet_requires_password:
  assumes "environ wld ''AGENT_WALLET_PASSWORD'' = None
           \<or> environ wld ''AGENT_WALLET_PASSWORD'' = Some []"
  shows "load_or_create_wallet wld self =
           \<lparr>wal_events = [Log WARNING ''AGENT_WALLET_PASSWORD not set. Cannot manage wallet.''],
            wal_value = Inr None, wal_self = self, wal_world = wld\<rparr>"
  using assms by (auto simp: load_or_create_wallet_def)

theorem wallet_requires_password_witness:
  "wal_value (load_or_create_wallet
     (test_world (\<lambda>name. if name = ''AGENT_PRIVATE_KEY'' then Some ''k7'' else None) None
        test_account)
     empty_registrar) = Inr None"
proof -
  let ?W = "test_world (\<lambda>name. if name = ''AGENT_PRIVATE_KEY'' then Some ''k7'' else None) None
              test_account"
  have "environ ?W ''AGENT_WALLET_PASSWORD'' = None"
    by (simp add: test_world_def)
  then have "load_or_create_wallet ?W empty_registrar =
      \<lparr>wal_events = [Log WARNING ''AGENT_WALLET_PASSWORD not set. Cannot manage wallet.''],
       wal_value = Inr None, wal_self = empty_registrar, wal_world = ?W\<rparr>"
    using wallet_requires_password [of ?W empty_registrar] by blast
  then show ?thesis by simp
qed

lemma wallet_private_key:
  assumes "truthy_str (environ wld ''AGENT_WALLET_PASSWORD'') = Some password"
    and "truthy_str (environ wld ''AGENT_PRIVATE_KEY'') = Some private_key"
  shows "load_or_create_wallet wld self = wallet_from_private_key wld self private_key"
  using assms by (simp add: load_or_create_wallet_def)

lemma wallet_keystore:
  assumes "truthy_str (environ wld ''AGENT_WALLET_PASSWORD'') = Some password"
    and "truthy_str (environ wld ''AGENT_PRIVATE_KEY'') = None"
    and "path_exists wld (configured_keystore_path wld) = Inr True"
  shows "load_or_create_wallet wld self =
           (wallet_from_keystore wld self password (configured_keystore_path wld))
             \<lparr>wal_events := FileExists (configured_keystore_path wld) #
                wal_events (wallet_from_keystore wld self password (configured_keystore_path wld))\<rparr>"
  using assms by (simp add: load_or_create_wallet_def Let_def)

lemma wallet_new:
  assumes "truthy_str (environ wld ''AGENT_WALLET_PASSWORD'') = Some password"
    and "truthy_str (environ wld ''AGENT_PRIVATE_KEY'') = None"
    and "path_exists wld (configured_keystore_path wld) = Inr False"
  shows "load_or_create_wallet wld self =
           (wallet_create wld self password (configured_keystore_path wld))
             \<lparr>wal_events := FileExists (configured_keystore_path wld) #
                wal_events (wallet_create wld self password (configured_keystore_path wld))\<rparr>"
  using assms by (simp add: load_or_create_wallet_def Let_def)

text \<open>An exception of the existence test leaves the method.\<close>

lemma wallet_exists_raises:
  assumes "truthy_str (environ wld ''AGENT_WALLET_PASSWORD'') = Some password"
    and "truthy_str (environ wld ''AGENT_PRIVATE_KEY'') = None"
    and "path_exists wld (configured_keystore_path wld) = Inl e"
  shows "load_or_create_wallet wld self =
           \<lparr>wal_events = [FileExists (configured_keystore_path wld)], wal_value = Inl e,
            wal_self = self, wal_world = wld\<rparr>"
  using assms by (simp add: load_or_create_wallet_def Let_def)

lemma read_keystore_ok:
  assumes "open_read wld p = Inr encrypted" and "account_decrypt wld encrypted pw = Inr k"
    and "account_from_key wld (KeyBytes k) = Inr acct"
  shows "read_keystore wld pw p = Inr acct"
  using assms by (simp add: read_keystore_def try_bind_def)

lemma read_keystore_failed:
  assumes "open_read wld p = Inl e
           \<or> (open_read wld p = Inr encrypted \<and> account_decrypt wld encrypted pw = Inl e)
           \<or> (open_read wld p = Inr encrypted \<and> account_decrypt wld encrypted pw = Inr k \<and>
               account_from_key wld (KeyBytes k) = Inl e)"
  shows "read_keystore wld pw p = Inl e"
  using assms by (auto simp: read_keystore_def try_bind_def)

lemma wallet_from_keystore_events:
  "FileOpenWrite q \<notin> set (wal_events (wallet_from_keystore wld self pw p))
   \<and> wal_world (wallet_from_keystore wld self pw p) = wld"
  by (cases "read_keystore wld pw p") (simp_all add: wallet_from_keystore_def)

lemma wallet_create_events:
  "FileOpenRead q \<notin> set (wal_events (wallet_create wld self pw p))"
proof (cases "account_create wld")
  case (Inl e)
  then show ?thesis by (simp add: wallet_create_def Let_def)
next
  case acct: (Inr acct)
  show ?thesis
  proof (cases "account_encrypt wld (key acct) pw")
    case (Inl e)
    with acct show ?thesis by (simp add: wallet_create_def Let_def)
  next
    case enc: (Inr enc)
    show ?thesis
    proof (cases "open_write wld p")
      case (Some e)
      with acct enc show ?thesis by (simp add: wallet_create_def Let_def)
    next
      case None
      with acct enc show ?thesis
        by (cases "write_json wld p enc") (auto simp: wallet_create_def Let_def)
    qed
  qed
qed

lemma wallet_create_written:
  assumes "account_create wld = Inr acct" and "account_encrypt wld (key acct) pw = Inr enc"
    and "open_write wld p = None" and "write_json wld p enc = Inr written"
  shows "wal_value (wallet_create wld self pw p) = Inr (Some (address acct))
         \<and> self_account (wal_self (wallet_create wld self pw p)) = Some acct
         \<and> path_exists (wal_world (wallet_create wld self pw p)) p = Inr True
         \<and> open_read (wal_world (wallet_create wld self pw p)) p = Inr written"
  using assms by (simp add: wallet_create_def Let_def)

lemma wallet_create_failed_early:
  assumes "account_create wld = Inl e
           \<or> (account_create wld = Inr acct \<and> account_encrypt wld (key acct) pw = Inl e)
           \<or> (account_create wld = Inr acct \<and> account_encrypt wld (key acct) pw = Inr enc \<and>
               open_write wld p = Some e)"
  shows "wal_value (wallet_create wld self pw p) = Inr None
         \<and> wal_world (wallet_create wld self pw p) = wld"
  using assms by (auto simp: wallet_create_def Let_def)

lemma wallet_create_failed_writing:
  assumes "account_create wld = Inr acct" and "account_encrypt wld (key acct) pw = Inr enc"
    and "open_write wld p = None" and "write_json wld p enc = Inl (e, partial)"
  shows "wal_value (wallet_create wld self pw p) = Inr None"
  using assms by (simp add: wallet_create_def Let_def)

text \<open>
  C5, as amended. With a password configured, the identity is resolved by the first match of:
  (1) a private key in the environment: it alone decides, no file is touched, and a parse
  failure gives \<open>None\<close> and leaves the instance as it was;
  (2) otherwise an existing keystore file: it is read and decrypted, nothing is written,
  and a failure gives \<open>None\<close> and leaves the instance as it was;
  (3) otherwise, with no keystore file, a new key pair: when generating it, encrypting it,
  opening the keystore path for writing and writing and closing the file all succeed, the
  encrypted key is in the file at the path and the new address is returned; when one of
  them raises, \<open>None\<close> is returned, and nothing is written if the failure comes before the
  file is opened.
\<close>

theorem wallet_resolution_order:
  assumes pw: "truthy_str (environ wld ''AGENT_WALLET_PASSWORD'') = Some password"
    and kp: "keystore_path =
               (case environ wld ''AGENT_KEYSTORE_PATH'' of
                  None \<Rightarrow> ''agent_keystore.json'' | Some p \<Rightarrow> p)"
  shows
    "(truthy_str (environ wld ''AGENT_PRIVATE_KEY'') = Some private_key \<longrightarrow>
        filter is_file_access (wal_events (load_or_create_wallet wld self)) = []
        \<and> wal_world (load_or_create_wallet wld self) = wld
        \<and> (account_from_key wld (KeyText private_key) = Inr acct \<longrightarrow>
             wal_value (load_or_create_wallet wld self) = Inr (Some (address acct))
             \<and> self_account (wal_self (load_or_create_wallet wld self)) = Some acct)
        \<and> (account_from_key wld (KeyText private_key) = Inl e \<longrightarrow>
             wal_value (load_or_create_wallet wld self) = Inr None
             \<and> wal_self (load_or_create_wallet wld self) = self))
     \<and> (truthy_str (environ wld ''AGENT_PRIVATE_KEY'') = None \<and>
        path_exists wld keystore_path = Inr True \<longrightarrow>
        FileOpenWrite keystore_path
          \<notin> set (wal_events (load_or_create_wallet wld self))
        \<and> wal_world (load_or_create_wallet wld self) = wld
        \<and> (open_read wld keystore_path = Inr encrypted \<and>
            account_decrypt wld encrypted password = Inr k \<and>
            account_from_key wld (KeyBytes k) = Inr acct \<longrightarrow>
             wal_value (load_or_create_wallet wld self) = Inr (Some (address acct))
             \<and> self_account (wal_self (load_or_create_wallet wld self)) = Some acct)
        \<and> (open_read wld keystore_path = Inl e
            \<or> (open_read wld keystore_path = Inr encrypted \<and>
                account_decrypt wld encrypted password = Inl e)
            \<or> (open_read wld keystore_path = Inr encrypted \<and>
                account_decrypt wld encrypted password = Inr k \<and>
                account_from_key wld (KeyBytes k) = Inl e) \<longrightarrow>
             wal_value (load_or_create_wallet wld self) = Inr None
             \<and> wal_self (load_or_create_wallet wld self) = self))
     \<and> (truthy_str (environ wld ''AGENT_PRIVATE_KEY'') = None \<and>
        path_exists wld keystore_path = Inr False \<longrightarrow>
        FileOpenRead keystore_path
          \<notin> set (wal_events (load_or_create_wallet wld self))
        \<and> (account_create wld = Inr acct \<and>
            account_encrypt wld (key acct) password = Inr encrypted_key \<and>
            open_write wld keystore_path = None \<and>
            write_json wld keystore_path encrypted_key = Inr written \<longrightarrow>
             wal_value (load_or_create_wallet wld self) = Inr (Some (address acct))
             \<and> self_account (wal_self (load_or_create_wallet wld self)) = Some acct
             \<and> path_exists (wal_world (load_or_create_wallet wld self))
                 keystore_path = Inr True
             \<and> open_read (wal_world (load_or_create_wallet wld self))
                 keystore_path = Inr written)
        \<and> (account_create wld = Inl e
            \<or> (account_create wld = Inr acct \<and> account_encrypt wld (key acct) password = Inl e)
            \<or> (account_create wld = Inr acct \<and>
                account_encrypt wld (key acct) password = Inr encrypted_key \<and>
                open_write wld keystore_path = Some e) \<longrightarrow>
             wal_value (load_or_create_wallet wld self) = Inr None
             \<and> wal_world (load_or_create_wallet wld self) = wld)
        \<and> (account_create wld = Inr acct \<and>
            account_encrypt wld (key acct) password = Inr encrypted_key \<and>
            open_write wld keystore_path = None \<and>
            write_json wld keystore_path encrypted_key = Inl (e, partial) \<longrightarrow>
             wal_value (load_or_create_wallet wld self) = Inr None))"
proof -
  have cp: "configured_keystore_path wld = keystore_path"
    by (simp add: kp configured_keystore_path_def DEFAULT_KEYSTORE_PATH_def
        split: option.splits)
  let ?r = "load_or_create_wallet wld self"
  have c1: "filter is_file_access (wal_events ?r) = [] \<and> wal_world ?r = wld
      \<and> (account_from_key wld (KeyText private_key) = Inr acct \<longrightarrow>
           wal_value ?r = Inr (Some (address acct)) \<and> self_account (wal_self ?r) = Some acct)
      \<and> (account_from_key wld (KeyText private_key) = Inl e \<longrightarrow>
           wal_value ?r = Inr None \<and> wal_self ?r = self)"
    if "truthy_str (environ wld ''AGENT_PRIVATE_KEY'') = Some private_key"
    by (cases "account_from_key wld (KeyText private_key)")
       (simp_all add: wallet_private_key [OF pw that] wallet_from_private_key_def)
  have c2: "FileOpenWrite keystore_path \<notin> set (wal_events ?r) \<and> wal_world ?r = wld
      \<and> (open_read wld keystore_path = Inr encrypted \<and>
          account_decrypt wld encrypted password = Inr k \<and>
          account_from_key wld (KeyBytes k) = Inr acct \<longrightarrow>
           wal_value ?r = Inr (Some (address acct)) \<and> self_account (wal_self ?r) = Some acct)
      \<and> (open_read wld keystore_path = Inl e
          \<or> (open_read wld keystore_path = Inr encrypted \<and>
              account_decrypt wld encrypted password = Inl e)
          \<or> (open_read wld keystore_path = Inr encrypted \<and>
              account_decrypt wld encrypted password = Inr k \<and>
              account_from_key wld (KeyBytes k) = Inl e) \<longrightarrow>
           wal_value ?r = Inr None \<and> wal_self ?r = self)"
    if n: "truthy_str (environ wld ''AGENT_PRIVATE_KEY'') = None"
      and x: "path_exists wld keystore_path = Inr True"
  proof -
    from x cp have x': "path_exists wld (configured_keystore_path wld) = Inr True" by simp
    have r: "?r = (wallet_from_keystore wld self password keystore_path)
                    \<lparr>wal_events := FileExists keystore_path #
                       wal_events (wallet_from_keystore wld self password keystore_path)\<rparr>"
      using wallet_keystore [OF pw n x', of self] by (simp only: cp)
    have a: "FileOpenWrite keystore_path \<notin> set (wal_events ?r) \<and> wal_world ?r = wld"
      using wallet_from_keystore_events [of keystore_path wld self password keystore_path]
      by (simp add: r)
    have b: "wal_value ?r = Inr (Some (address acct)) \<and> self_account (wal_self ?r) = Some acct"
      if "open_read wld keystore_path = Inr encrypted \<and>
          account_decrypt wld encrypted password = Inr k \<and>
          account_from_key wld (KeyBytes k) = Inr acct"
    proof -
      from that have "read_keystore wld password keystore_path = Inr acct"
        by (simp add: read_keystore_ok)
      then show ?thesis by (simp add: r wallet_from_keystore_def)
    qed
    have c: "wal_value ?r = Inr None \<and> wal_self ?r = self"
      if "open_read wld keystore_path = Inl e
          \<or> (open_read wld keystore_path = Inr encrypted \<and>
              account_decrypt wld encrypted password = Inl e)
          \<or> (open_read wld keystore_path = Inr encrypted \<and>
              account_decrypt wld encrypted password = Inr k \<and>
              account_from_key wld (KeyBytes k) = Inl e)"
    proof -
      from that have "read_keystore wld password keystore_path = Inl e"
        by (rule read_keystore_failed)
      then show ?thesis by (simp add: r wallet_from_keystore_def)
    qed
    from a b c show ?thesis by blast
  qed
  have c3: "FileOpenRead keystore_path \<notin> set (wal_events ?r)
      \<and> (account_create wld = Inr acct \<and>
          account_encrypt wld (key acct) password = Inr encrypted_key \<and>
          open_write wld keystore_path = None \<and>
          write_json wld keystore_path encrypted_key = Inr written \<longrightarrow>
           wal_value ?r = Inr (Some (address acct))
           \<and> self_account (wal_self ?r) = Some acct
           \<and> path_exists (wal_world ?r) keystore_path = Inr True
           \<and> open_read (wal_world ?r) keystore_path = Inr written)
      \<and> (account_create wld = Inl e
          \<or> (account_create wld = Inr acct \<and> account_encrypt wld (key acct) password = Inl e)
          \<or> (account_create wld = Inr acct \<and>
              account_encrypt wld (key acct) password = Inr encrypted_key \<and>
              open_write wld keystore_path = Some e) \<longrightarrow>
           wal_value ?r = Inr None \<and> wal_world ?r = wld)
      \<and> (account_create wld = Inr acct \<and>
          account_encrypt wld (key acct) password = Inr encrypted_key \<and>
          open_write wld keystore_path = None \<and>
          write_json wld keystore_path encrypted_key = Inl (e, partial) \<longrightarrow>
           wal_value ?r = Inr None)"
    if n: "truthy_str (environ wld ''AGENT_PRIVATE_KEY'') = None"
      and x: "path_exists wld keystore_path = Inr False"
  proof -
    from x cp have x': "path_exists wld (configured_keystore_path wld) = Inr False" by simp
    have r: "?r = (wallet_create wld self password keystore_path)
                    \<lparr>wal_events := FileExists keystore_path #
                       wal_events (wallet_create wld self password keystore_path)\<rparr>"
      using wallet_new [OF pw n x', of self] by (simp only: cp)
    have a: "FileOpenRead keystore_path \<notin> set (wal_events ?r)"
      using wallet_create_events [of keystore_path wld self password keystore_path]
      by (simp add: r)
    have b: "wal_value ?r = Inr (Some (address acct))
           \<and> self_account (wal_self ?r) = Some acct
           \<and> path_exists (wal_world ?r) keystore_path = Inr True
           \<and> open_read (wal_world ?r) keystore_path = Inr written"
      if "account_create wld = Inr acct \<and>
          account_encrypt wld (key acct) password = Inr encrypted_key \<and>
          open_write wld keystore_path = None \<and>
          write_json wld keystore_path encrypted_key = Inr written"
      using that
        wallet_create_written [of wld acct password encrypted_key keystore_path written self]
      by (simp add: r)
    have c: "wal_value ?r = Inr None \<and> wal_world ?r = wld"
      if "account_create wld = Inl e
          \<or> (account_create wld = Inr acct \<and> account_encrypt wld (key acct) password = Inl e)
          \<or> (account_create wld = Inr acct \<and>
              account_encrypt wld (key acct) password = Inr encrypted_key \<and>
              open_write wld keystore_path = Some e)"
      using wallet_create_failed_early [OF that, of self] by (simp add: r)
    have d: "wal_value ?r = Inr None"
      if "account_create wld = Inr acct \<and>
          account_encrypt wld (key acct) password = Inr encrypted_key \<and>
          open_write wld keystore_path = None \<and>
          write_json wld keystore_path encrypted_key = Inl (e, partial)"
      using that
        wallet_create_failed_writing
          [of wld acct password encrypted_key keystore_path e partial self]
      by (simp add: r)
    from a b c d show ?thesis by blast
  qed
  from c1 c2 c3 show ?thesis by blast
qed

theorem wallet_resolution_order_witness:
  "wal_value (load_or_create_wallet (test_world (test_env (Some ''k7'')) None test_account)
      empty_registrar) = Inr (Some ''0xk7'')
   \<and> wal_value (load_or_create_wallet
        ((test_world (test_env None) None test_account)
           \<lparr>path_exists := (\<lambda>p. Inr True), open_read := (\<lambda>p. Inr ''k3'')\<rparr>)
        empty_registrar) = Inr (Some ''0xk3'')
   \<and> wal_value (load_or_create_wallet (test_world (test_env None) None test_account)
        empty_registrar) = Inr (Some ''0xk1'')
   \<and> open_read (wal_world (load_or_create_wallet (test_world (test_env None) None test_account)
        empty_registrar)) ''test_keystore.json'' = Inr ''k1''
   \<and> wal_value (load_or_create_wallet
        ((test_world (test_env None) None test_account)
           \<lparr>write_json := (\<lambda>p j. Inl (PyException ''OSError''
                                        ''[Errno 28] No space left on device'', []))\<rparr>)
        empty_registrar) = Inr None"
proof -
  let ?W1 = "test_world (test_env (Some ''k7'')) None test_account"
  let ?W2 = "(test_world (test_env None) None test_account)
               \<lparr>path_exists := (\<lambda>p. Inr True), open_read := (\<lambda>p. Inr ''k3'')\<rparr>"
  let ?W3 = "test_world (test_env None) None test_account"
  let ?e = "PyException ''OSError'' ''[Errno 28] No space left on device''"
  let ?W4 = "(test_world (test_env None) None test_account)
               \<lparr>write_json := (\<lambda>p j. Inl (?e, []))\<rparr>"
  have p1: "''test_keystore.json'' =
             (case environ ?W1 ''AGENT_KEYSTORE_PATH'' of
                None \<Rightarrow> ''agent_keystore.json'' | Some p \<Rightarrow> p)"
    by (simp add: test_world_def test_env_def)
  have p2: "''test_keystore.json'' =
             (case environ ?W2 ''AGENT_KEYSTORE_PATH'' of
                None \<Rightarrow> ''agent_keystore.json'' | Some p \<Rightarrow> p)"
    by (simp add: test_world_def test_env_def)
  have p3: "''test_keystore.json'' =
             (case environ ?W3 ''AGENT_KEYSTORE_PATH'' of
                None \<Rightarrow> ''agent_keystore.json'' | Some p \<Rightarrow> p)"
    by (simp add: test_world_def test_env_def)
  have p4: "''test_keystore.json'' =
             (case environ ?W4 ''AGENT_KEYSTORE_PATH'' of
                None \<Rightarrow> ''agent_keystore.json'' | Some p \<Rightarrow> p)"
    by (simp add: test_world_def test_env_def)
  have "truthy_str (environ ?W1 ''AGENT_WALLET_PASSWORD'') = Some ''test_password''"
    and "truthy_str (environ ?W1 ''AGENT_PRIVATE_KEY'') = Some ''k7''"
    and "account_from_key ?W1 (KeyText ''k7'') = Inr \<lparr>address = ''0xk7'', key = ''k7''\<rparr>"
    by (simp_all add: test_world_def test_env_def)
  with wallet_resolution_order
         [where wld = ?W1 and keystore_path = "''test_keystore.json''" and password = "''test_password''" and private_key = "''k7''"
            and acct = "\<lparr>address = ''0xk7'', key = ''k7''\<rparr>" and self = empty_registrar]
         p1
  have a: "wal_value (load_or_create_wallet ?W1 empty_registrar) = Inr (Some ''0xk7'')"
    by simp
  have "truthy_str (environ ?W2 ''AGENT_WALLET_PASSWORD'') = Some ''test_password''"
    and "truthy_str (environ ?W2 ''AGENT_PRIVATE_KEY'') = None"
    and "path_exists ?W2 ''test_keystore.json'' = Inr True"
    and "open_read ?W2 ''test_keystore.json'' = Inr ''k3''"
    and "account_decrypt ?W2 ''k3'' ''test_password'' = Inr ''k3''"
    and "account_from_key ?W2 (KeyBytes ''k3'') = Inr \<lparr>address = ''0xk3'', key = ''k3''\<rparr>"
    by (simp_all add: test_world_def test_env_def)
  with wallet_resolution_order
         [where wld = ?W2 and keystore_path = "''test_keystore.json''" and encrypted = "''k3''" and k = "''k3''" and password = "''test_password''"
            and acct = "\<lparr>address = ''0xk3'', key = ''k3''\<rparr>" and self = empty_registrar]
         p2
  have b: "wal_value (load_or_create_wallet ?W2 empty_registrar) = Inr (Some ''0xk3'')"
    by simp
  have "truthy_str (environ ?W3 ''AGENT_WALLET_PASSWORD'') = Some ''test_password''"
    and "truthy_str (environ ?W3 ''AGENT_PRIVATE_KEY'') = None"
    and "path_exists ?W3 ''test_keystore.json'' = Inr False"
    and "account_create ?W3 = Inr \<lparr>address = ''0xk1'', key = ''k1''\<rparr>"
    and "account_encrypt ?W3 (key \<lparr>address = ''0xk1'', key = ''k1''\<rparr>) ''test_password''
           = Inr (JStr ''k1'')"
    and "open_write ?W3 ''test_keystore.json'' = None"
    and "write_json ?W3 ''test_keystore.json'' (JStr ''k1'') = Inr ''k1''"
    by (simp_all add: test_world_def test_env_def test_account_def)
  with wallet_resolution_order
         [where wld = ?W3 and keystore_path = "''test_keystore.json''" and password = "''test_password''"
            and acct = "\<lparr>address = ''0xk1'', key = ''k1''\<rparr>" and self = empty_registrar
            and encrypted_key = "JStr ''k1''" and written = "''k1''"] p3
  have c: "wal_value (load_or_create_wallet ?W3 empty_registrar) = Inr (Some ''0xk1'')
           \<and> open_read (wal_world (load_or_create_wallet ?W3 empty_registrar))
                ''test_keystore.json'' = Inr ''k1''"
    by simp
  have "truthy_str (environ ?W4 ''AGENT_WALLET_PASSWORD'') = Some ''test_password''"
    and "truthy_str (environ ?W4 ''AGENT_PRIVATE_KEY'') = None"
    and "path_exists ?W4 ''test_keystore.json'' = Inr False"
    and "account_create ?W4 = Inr \<lparr>address = ''0xk1'', key = ''k1''\<rparr>"
    and "account_encrypt ?W4 (key \<lparr>address = ''0xk1'', key = ''k1''\<rparr>) ''test_password''
           = Inr (JStr ''k1'')"
    and "open_write ?W4 ''test_keystore.json'' = None"
    and "write_json ?W4 ''test_keystore.json'' (JStr ''k1'') = Inl (?e, [])"
    by (simp_all add: test_world_def test_env_def test_account_def)
  with wallet_resolution_order
         [where wld = ?W4 and keystore_path = "''test_keystore.json''" and password = "''test_password''"
            and acct = "\<lparr>address = ''0xk1'', key = ''k1''\<rparr>" and self = empty_registrar
            and encrypted_key = "JStr ''k1''" and e = ?e and partial = "[]"] p4
  have d: "wal_value (load_or_create_wallet ?W4 empty_registrar) = Inr None"
    by simp
  from a b c d show ?thesis by simp
qed

text \<open>
  C5 as stated fails in its third case: with a password, no private key and no keystore
  file, but a keystore path that cannot be opened for writing, a key pair is generated and
  yet \<open>None\<close> is returned and no file is written.
\<close>

theorem wallet_resolution_order_counterexample:
  "truthy_str (environ
      (test_world (test_env None) (Some (PyException ''PermissionError'' ''Permission denied''))
         test_account) ''AGENT_WALLET_PASSWORD'') = Some ''test_password''
   \<and> truthy_str (environ
      (test_world (test_env None) (Some (PyException ''PermissionError'' ''Permission denied''))
         test_account) ''AGENT_PRIVATE_KEY'') = None
   \<and> path_exists
      (test_world (test_env None) (Some (PyException ''PermissionError'' ''Permission denied''))
         test_account) ''test_keystore.json'' = Inr False
   \<and> wal_value (load_or_create_wallet
      (test_world (test_env None) (Some (PyException ''PermissionError'' ''Permission denied''))
         test_account) empty_registrar) = Inr None
   \<and> path_exists (wal_world (load_or_create_wallet
      (test_world (test_env None) (Some (PyException ''PermissionError'' ''Permission denied''))
         test_account) empty_registrar)) ''test_keystore.json'' = Inr False"
  by (simp add: wallet_defs test_world_defs Let_def)

section \<open>The identity of an instance\<close>










end
